theory Spec2Isabelle
  imports Complex_Main
begin

section \<open>The waypoint updater node\<close>

text \<open>
  A shallow embedding of \<^verbatim>\<open>ros/src/waypoint_updater/waypoint_updater.py\<close>.

  Every handler of the node mutates \<^verbatim>\<open>self\<close> and may raise. A handler is therefore a
  function from the node state to a pair: the exception raised, if any, and the state at
  the moment the handler returned or raised. The node is started by the plain
  interpreter, so its \<^verbatim>\<open>assert\<close> statements are executed.
\<close>

subsection \<open>Exceptions\<close>

datatype assertion =
  TrackWaypointsNotSet
| InvalidWaypointIndex int
| InvalidObjectType

datatype error =
  AssertionError assertion
| AttributeError string
| IndexError
| KeyError string
| OverflowError
| ValueError

text \<open>Sequencing: what follows a computation that raised does not run.\<close>

definition and_then :: "error + 'a \<Rightarrow> ('a \<Rightarrow> error + 'b) \<Rightarrow> error + 'b" where
  "and_then m k = (case m of Inl e \<Rightarrow> Inl e | Inr v \<Rightarrow> k v)"

subsection \<open>Float arithmetic\<close>

text \<open>
  The node computes with Python floats. Their arithmetic belongs to the interpreter and
  the \<^verbatim>\<open>math\<close> module, not to the repository, and it is a parameter of the model: a type
  \<open>'f\<close> of float values and the record of the constants and operations the node uses.
  The doubles of the interpreter, with their rounding, their two zeros, the infinities
  and NaN, are one such arithmetic; nothing below assumes which one it is, unless a
  theorem says so.

  The operations that can raise return a sum: \<^verbatim>\<open>x ** 2\<close> (\<^verbatim>\<open>OverflowError\<close>),
  \<^verbatim>\<open>math.sqrt\<close> and \<^verbatim>\<open>math.fmod\<close> (\<^verbatim>\<open>ValueError\<close>). The divisors of the two divisions
  are the literals \<^verbatim>\<open>2\<close> and \<^verbatim>\<open>3.6\<close>, so that no division raises.
\<close>

record 'f arith =
  f_zero :: 'f
  f_two :: 'f
  f_pi :: 'f
  f_max :: 'f
  f_0_01 :: 'f
  f_3_6 :: 'f
  f_add :: "'f \<Rightarrow> 'f \<Rightarrow> 'f"
  f_sub :: "'f \<Rightarrow> 'f \<Rightarrow> 'f"
  f_mul :: "'f \<Rightarrow> 'f \<Rightarrow> 'f"
  f_div :: "'f \<Rightarrow> 'f \<Rightarrow> 'f"
  f_sqr :: "'f \<Rightarrow> error + 'f"
  f_sqrt :: "'f \<Rightarrow> error + 'f"
  f_less :: "'f \<Rightarrow> 'f \<Rightarrow> bool"
  f_fabs :: "'f \<Rightarrow> 'f"
  f_atan2 :: "'f \<Rightarrow> 'f \<Rightarrow> 'f"
  f_fmod :: "'f \<Rightarrow> 'f \<Rightarrow> error + 'f"

subsection \<open>Message types\<close>

text \<open>
  The messages of \<^verbatim>\<open>geometry_msgs\<close>, \<^verbatim>\<open>std_msgs\<close> and \<^verbatim>\<open>styx_msgs\<close>, with the fields
  the node reads or copies. A time stamp is the pair of seconds and nanoseconds.
\<close>

record 'f point =
  pt_x :: 'f
  pt_y :: 'f
  pt_z :: 'f

record 'f quaternion =
  q_x :: 'f
  q_y :: 'f
  q_z :: 'f
  q_w :: 'f

record 'f pose =
  position :: "'f point"
  orientation :: "'f quaternion"

type_synonym time = "nat \<times> nat"

record header =
  hd_seq :: nat
  stamp :: time
  frame_id :: string

record 'f pose_stamped =
  ps_header :: header
  ps_pose :: "'f pose"

record 'f twist =
  linear :: "'f point"
  angular :: "'f point"

record 'f twist_stamped =
  ts_header :: header
  ts_twist :: "'f twist"

record 'f waypoint =
  wp_pose :: "'f pose_stamped"
  wp_twist :: "'f twist_stamped"

record 'f lane =
  lane_header :: header
  lane_waypoints :: "'f waypoint list"

text \<open>The values the message constructors give when called without arguments.\<close>

definition Point_new :: "'f arith \<Rightarrow> 'f point" where
  "Point_new fl = \<lparr>pt_x = f_zero fl, pt_y = f_zero fl, pt_z = f_zero fl\<rparr>"

definition Quaternion_new :: "'f arith \<Rightarrow> 'f quaternion" where
  "Quaternion_new fl = \<lparr>q_x = f_zero fl, q_y = f_zero fl, q_z = f_zero fl, q_w = f_zero fl\<rparr>"

definition Header_new :: header where
  "Header_new = \<lparr>hd_seq = 0, stamp = (0, 0), frame_id = []\<rparr>"

definition PoseStamped_new :: "'f arith \<Rightarrow> 'f pose_stamped" where
  "PoseStamped_new fl =
     \<lparr>ps_header = Header_new,
      ps_pose = \<lparr>position = Point_new fl, orientation = Quaternion_new fl\<rparr>\<rparr>"

definition Waypoint_new :: "'f arith \<Rightarrow> 'f waypoint" where
  "Waypoint_new fl =
     \<lparr>wp_pose = PoseStamped_new fl,
      wp_twist = \<lparr>ts_header = Header_new,
                  ts_twist = \<lparr>linear = Point_new fl, angular = Point_new fl\<rparr>\<rparr>\<rparr>"

subsection \<open>Constants\<close>

definition LOOKAHEAD_WPS :: nat where
  "LOOKAHEAD_WPS = 200"

definition POSE_QUEUE_SIZE :: nat where
  "POSE_QUEUE_SIZE = 50"

definition VERBOSE :: int where
  "VERBOSE = 1"

definition MIN_UPDATE_DIST :: "'f arith \<Rightarrow> 'f" where
  "MIN_UPDATE_DIST fl = f_0_01 fl"

definition WP_UNDEFINED :: int where
  "WP_UNDEFINED = - 1"

subsection \<open>Log lines and the node state\<close>

text \<open>
  One constructor for each \<^verbatim>\<open>rospy.loginfo\<close> call of the node, carrying the values the
  call formats.
\<close>

datatype 'f log_event =
  LogClosest nat nat 'f "'f waypoint"
| LogNext nat nat 'f "'f waypoint"
| LogFirstWP 'f 'f 'f bool
| LogEgoPose "'f pose_stamped" 'f
| LogTraffic int "'f point"
| LogObstacle int "'f point"

text \<open>
  The attributes of \<^verbatim>\<open>WaypointUpdater\<close>, and the two channels the node writes to: the
  messages handed to the publisher of \<^verbatim>\<open>final_waypoints\<close>, and the log.
\<close>

record 'f node =
  start_time :: 'f
  ego_pose :: "'f pose_stamped"
  ego_pose_queue :: "'f pose_stamped list"
  waypoints :: "'f waypoint list"
  wp_traffic_light :: int
  wp_obstacle :: int
  final_waypoints :: "'f lane"
  v_max :: 'f
  published :: "'f lane list"
  log :: "'f log_event list"

text \<open>
  \<^verbatim>\<open>__init__\<close>, given the time \<^verbatim>\<open>rospy.Time.now().to_sec()\<close> returns. The lane to publish
  is filled with \<^verbatim>\<open>LOOKAHEAD_WPS\<close> fresh waypoints.
\<close>

definition init :: "'f arith \<Rightarrow> 'f \<Rightarrow> 'f node" where
  "init fl now =
     \<lparr>start_time = now,
      ego_pose = PoseStamped_new fl,
      ego_pose_queue = [],
      waypoints = [],
      wp_traffic_light = WP_UNDEFINED,
      wp_obstacle = WP_UNDEFINED,
      final_waypoints =
        \<lparr>lane_header = Header_new,
         lane_waypoints = replicate LOOKAHEAD_WPS (Waypoint_new fl)\<rparr>,
      v_max = f_zero fl,
      published = [],
      log = []\<rparr>"

subsection \<open>Helpers of the node\<close>

text \<open>
  \<^verbatim>\<open>get_position\<close> and \<^verbatim>\<open>get_orientation\<close> inspect the type of their argument. The
  callers pass a \<^verbatim>\<open>PoseStamped\<close> or a \<^verbatim>\<open>Waypoint\<close>; the closing \<^verbatim>\<open>assert 0\<close> is reached
  by an object of neither type, which the type \<open>obj\<close> does not contain.
\<close>

datatype 'f obj = PoseStampedObj "'f pose_stamped" | WaypointObj "'f waypoint"

fun get_position :: "'f obj \<Rightarrow> 'f point" where
  "get_position (PoseStampedObj p) = position (ps_pose p)"
| "get_position (WaypointObj w) = position (ps_pose (wp_pose w))"

fun get_orientation :: "'f obj \<Rightarrow> 'f quaternion" where
  "get_orientation (PoseStampedObj p) = orientation (ps_pose p)"
| "get_orientation (WaypointObj w) = orientation (ps_pose (wp_pose w))"

text \<open>
  \<^verbatim>\<open>distance\<close>: the three squares, their sum from left to right, and its square root.
  A square that overflows raises, and so does the distance.
\<close>

definition distance :: "'f arith \<Rightarrow> 'f point \<Rightarrow> 'f point \<Rightarrow> error + 'f" where
  "distance fl p1 p2 =
     and_then (f_sqr fl (f_sub fl (pt_x p1) (pt_x p2))) (\<lambda>dx2.
     and_then (f_sqr fl (f_sub fl (pt_y p1) (pt_y p2))) (\<lambda>dy2.
     and_then (f_sqr fl (f_sub fl (pt_z p1) (pt_z p2))) (\<lambda>dz2.
     f_sqrt fl (f_add fl (f_add fl dx2 dy2) dz2))))"

definition check_waypoint_index :: "int \<Rightarrow> 'f node \<Rightarrow> error option" where
  "check_waypoint_index wp_index s =
     (if wp_index \<ge> 0 \<and> wp_index < int (length (waypoints s)) then None
      else Some (AssertionError (InvalidWaypointIndex wp_index)))"

subsection \<open>publish\_waypoints\<close>

text \<open>
  The scan for the closest waypoint: \<^verbatim>\<open>closest_id\<close> and \<^verbatim>\<open>closest_dist\<close> start at
  \<open>0\<close> and \<^verbatim>\<open>sys.float_info.max\<close>, and a waypoint replaces them when its distance
  is strictly less. The scan raises what a distance raises.
\<close>

definition closest_step ::
  "'f arith \<Rightarrow> 'f point \<Rightarrow> error + nat \<times> 'f \<Rightarrow> nat \<times> 'f waypoint \<Rightarrow> error + nat \<times> 'f" where
  "closest_step fl ego_pos acc iwp =
     and_then acc (\<lambda>best.
     and_then (distance fl ego_pos (get_position (WaypointObj (snd iwp)))) (\<lambda>dist.
     Inr (if f_less fl dist (snd best) then (fst iwp, dist) else best)))"

definition find_closest :: "'f arith \<Rightarrow> 'f point \<Rightarrow> 'f waypoint list \<Rightarrow> error + nat \<times> 'f" where
  "find_closest fl ego_pos wps =
     foldl (closest_step fl ego_pos) (Inr (0, f_max fl)) (enumerate 0 wps)"

text \<open>
  The choice between the closest waypoint and its successor: the direction from the
  vehicle to the closest waypoint and the yaw of the vehicle, both taken modulo
  \<^verbatim>\<open>2 * math.pi\<close>, and the angle between them.
\<close>

definition two_pi :: "'f arith \<Rightarrow> 'f" where
  "two_pi fl = f_mul fl (f_two fl) (f_pi fl)"

definition heading_to :: "'f arith \<Rightarrow> 'f point \<Rightarrow> 'f point \<Rightarrow> error + 'f" where
  "heading_to fl ego_pos pos_closest =
     (let heading = f_atan2 fl (f_sub fl (pt_y pos_closest) (pt_y ego_pos))
                                (f_sub fl (pt_x pos_closest) (pt_x ego_pos))
      in f_fmod fl (f_add fl heading (two_pi fl)) (two_pi fl))"

definition normalise_yaw :: "'f arith \<Rightarrow> 'f \<Rightarrow> error + 'f" where
  "normalise_yaw fl ego_yaw = f_fmod fl (f_add fl ego_yaw (two_pi fl)) (two_pi fl)"

definition folded_angle :: "'f arith \<Rightarrow> 'f \<Rightarrow> 'f \<Rightarrow> 'f" where
  "folded_angle fl ego_yaw heading =
     (let angle = f_fabs fl (f_sub fl ego_yaw heading)
      in if f_less fl (f_pi fl) angle then f_sub fl (two_pi fl) angle else angle)"

definition behind :: "'f arith \<Rightarrow> 'f \<Rightarrow> bool" where
  "behind fl angle = f_less fl (f_div fl (f_pi fl) (f_two fl)) angle"

definition select_first :: "'f arith \<Rightarrow> nat \<Rightarrow> nat \<Rightarrow> 'f \<Rightarrow> nat" where
  "select_first fl closest_id n angle =
     (if behind fl angle then (closest_id + 1) mod n else closest_id)"

text \<open>
  The loop that writes the next waypoints into the lane, one index at a time. An index
  outside a list raises \<^verbatim>\<open>IndexError\<close>, and nothing runs after it.
\<close>

definition window_step ::
  "'f waypoint list \<Rightarrow> error option \<times> 'f waypoint list \<times> nat \<Rightarrow> nat
     \<Rightarrow> error option \<times> 'f waypoint list \<times> nat" where
  "window_step wps acc i =
     (case acc of
        (Some e, fw, first_id) \<Rightarrow> (Some e, fw, first_id)
      | (None, fw, first_id) \<Rightarrow>
          if first_id \<ge> length wps then (Some IndexError, fw, first_id)
          else if i \<ge> length fw then (Some IndexError, fw, first_id)
          else (None, fw[i := wps ! first_id], (first_id + 1) mod length wps))"

definition fill_window ::
  "'f waypoint list \<Rightarrow> 'f waypoint list \<Rightarrow> nat \<Rightarrow> error option \<times> 'f waypoint list \<times> nat" where
  "fill_window wps fw first_id =
     foldl (window_step wps) (None, fw, first_id) [0..<LOOKAHEAD_WPS]"

text \<open>
  The log line of the branch that selects the next waypoint measures the distance to it,
  which can raise as every distance can.
\<close>

definition log_next ::
  "'f arith \<Rightarrow> 'f point \<Rightarrow> 'f waypoint list \<Rightarrow> nat \<Rightarrow> 'f \<Rightarrow> error + 'f log_event list" where
  "log_next fl ego_pos wps first_id angle =
     (if behind fl angle \<and> VERBOSE \<noteq> 0 then
        and_then (distance fl ego_pos (get_position (WaypointObj (wps ! first_id)))) (\<lambda>first_dist.
        Inr [LogNext first_id (length wps) first_dist (wps ! first_id)])
      else Inr [])"

text \<open>
  \<^verbatim>\<open>tf.transformations.euler_from_quaternion\<close> is library code outside the repository;
  the yaw it extracts from the orientation is the parameter \<open>yaw_of\<close>. The closest
  waypoint is read at \<^verbatim>\<open>closest_id\<close>, which the scan leaves below the length of a
  non-empty track. What the function has logged and written when it raises stays.
\<close>

definition publish_waypoints ::
  "'f arith \<Rightarrow> ('f quaternion \<Rightarrow> 'f) \<Rightarrow> 'f node \<Rightarrow> error option \<times> 'f node" where
  "publish_waypoints fl yaw_of s =
     (if length (waypoints s) = 0 then (Some (AssertionError TrackWaypointsNotSet), s)
      else
        let ego_pos = get_position (PoseStampedObj (ego_pose s))
        in case find_closest fl ego_pos (waypoints s) of
             Inl e \<Rightarrow> (Some e, s)
           | Inr (closest_id, closest_dist) \<Rightarrow>
        let log1 = (if VERBOSE \<noteq> 0
                    then [LogClosest closest_id (length (waypoints s)) closest_dist
                            (waypoints s ! closest_id)]
                    else []);
            s1 = s\<lparr>log := log s @ log1\<rparr>;
            ego_orient = get_orientation (PoseStampedObj (ego_pose s));
            ego_yaw = yaw_of ego_orient;
            pos_closest = get_position (WaypointObj (waypoints s ! closest_id))
        in case heading_to fl ego_pos pos_closest of
             Inl e \<Rightarrow> (Some e, s1)
           | Inr heading \<Rightarrow>
        (case normalise_yaw fl ego_yaw of
             Inl e \<Rightarrow> (Some e, s1)
           | Inr ego_yaw \<Rightarrow>
        let angle = folded_angle fl ego_yaw heading;
            first_id = select_first fl closest_id (length (waypoints s)) angle
        in case log_next fl ego_pos (waypoints s) first_id angle of
             Inl e \<Rightarrow> (Some e, s1)
           | Inr log2 \<Rightarrow>
        let log3 = (if VERBOSE \<noteq> 0
                    then [LogFirstWP heading ego_yaw angle (first_id \<noteq> closest_id)]
                    else []);
            hdr = (lane_header (final_waypoints s))\<lparr>stamp := stamp (ps_header (ego_pose s))\<rparr>;
            (err, fw, last_id) =
              fill_window (waypoints s) (lane_waypoints (final_waypoints s)) first_id;
            msg = \<lparr>lane_header = hdr, lane_waypoints = fw\<rparr>;
            s2 = s1\<lparr>final_waypoints := msg, log := log s1 @ log2 @ log3\<rparr>
        in case err of
             Some e \<Rightarrow> (Some e, s2)
           | None \<Rightarrow> (None, s2\<lparr>published := published s2 @ [msg]\<rparr>)))"

subsection \<open>The callbacks\<close>

text \<open>
  The history is a \<^verbatim>\<open>deque\<close> of at most \<^verbatim>\<open>POSE_QUEUE_SIZE\<close> poses: appending to a full
  one drops its oldest entry.
\<close>

definition deque_append :: "'a list \<Rightarrow> 'a \<Rightarrow> 'a list" where
  "deque_append q v = (let q' = q @ [v] in drop (length q' - POSE_QUEUE_SIZE) q')"

text \<open>
  \<^verbatim>\<open>pose_cb\<close> measures the distance travelled before anything else: when that raises,
  nothing has been logged or stored.
\<close>

definition pose_cb ::
  "'f arith \<Rightarrow> ('f quaternion \<Rightarrow> 'f) \<Rightarrow> 'f pose_stamped \<Rightarrow> 'f node \<Rightarrow> error option \<times> 'f node" where
  "pose_cb fl yaw_of new_pose s =
     (case distance fl (get_position (PoseStampedObj new_pose))
                       (get_position (PoseStampedObj (ego_pose s))) of
        Inl e \<Rightarrow> (Some e, s)
      | Inr dist_travelled \<Rightarrow>
          let s1 = (if VERBOSE \<noteq> 0
                    then s\<lparr>log := log s @ [LogEgoPose new_pose dist_travelled]\<rparr> else s)
          in if f_less fl dist_travelled (MIN_UPDATE_DIST fl) then (None, s1)
             else
               let s2 = s1\<lparr>ego_pose := new_pose\<rparr>;
                   s3 = s2\<lparr>ego_pose_queue := deque_append (ego_pose_queue s2) (ego_pose s2)\<rparr>
               in publish_waypoints fl yaw_of s3)"

text \<open>
  \<^verbatim>\<open>waypoints_cb\<close> reads the parameter \<^verbatim>\<open>/waypoint_loader/velocity\<close>, here the argument
  \<open>velocity\<close>; \<^verbatim>\<open>rospy.get_param\<close> raises \<^verbatim>\<open>KeyError\<close> when the parameter is not set.
\<close>

definition waypoints_cb ::
  "'f arith \<Rightarrow> 'f lane \<Rightarrow> 'f option \<Rightarrow> 'f node \<Rightarrow> error option \<times> 'f node" where
  "waypoints_cb fl msg velocity s =
     (let s1 = s\<lparr>waypoints := lane_waypoints msg\<rparr>
      in case velocity of
           None \<Rightarrow> (Some (KeyError ''/waypoint_loader/velocity''), s1)
         | Some v \<Rightarrow> (None, s1\<lparr>v_max := f_div fl v (f_3_6 fl)\<rparr>))"

text \<open>
  The log lines of \<^verbatim>\<open>traffic_cb\<close> and \<^verbatim>\<open>obstacle_cb\<close> read \<^verbatim>\<open>self.waypoint\<close>. The class
  sets the attributes listed in \<open>node\<close> and defines its methods; \<^verbatim>\<open>waypoint\<close> is none of
  them, so the lookup raises \<^verbatim>\<open>AttributeError\<close> before anything is logged.
\<close>

definition self_waypoint :: "'f node \<Rightarrow> error + 'f waypoint list" where
  "self_waypoint s = Inl (AttributeError ''waypoint'')"

definition traffic_cb :: "int \<Rightarrow> 'f node \<Rightarrow> error option \<times> 'f node" where
  "traffic_cb data s =
     (let s1 = s\<lparr>wp_traffic_light := data\<rparr>
      in if wp_traffic_light s1 \<noteq> WP_UNDEFINED then
           (case check_waypoint_index (wp_traffic_light s1) s1 of
              Some e \<Rightarrow> (Some e, s1)
            | None \<Rightarrow>
                if VERBOSE \<noteq> 0 then
                  (case self_waypoint s1 of
                     Inl e \<Rightarrow> (Some e, s1)
                   | Inr wps \<Rightarrow>
                       (None, s1\<lparr>log := log s1 @
                          [LogTraffic (wp_traffic_light s1)
                             (get_position (WaypointObj (wps ! nat (wp_traffic_light s1))))]\<rparr>))
                else (None, s1))
         else (None, s1))"

definition obstacle_cb :: "int \<Rightarrow> 'f node \<Rightarrow> error option \<times> 'f node" where
  "obstacle_cb data s =
     (let s1 = s\<lparr>wp_obstacle := data\<rparr>
      in if wp_obstacle s1 \<noteq> WP_UNDEFINED then
           (case check_waypoint_index (wp_obstacle s1) s1 of
              Some e \<Rightarrow> (Some e, s1)
            | None \<Rightarrow>
                if VERBOSE \<noteq> 0 then
                  (case self_waypoint s1 of
                     Inl e \<Rightarrow> (Some e, s1)
                   | Inr wps \<Rightarrow>
                       (None, s1\<lparr>log := log s1 @
                          [LogObstacle (wp_obstacle s1)
                             (get_position (WaypointObj (wps ! nat (wp_obstacle s1))))]\<rparr>))
                else (None, s1))
         else (None, s1))"

subsection \<open>The published window and its first index\<close>

text \<open>
  The slice of the track that starts at \<open>first_id\<close> and wraps around at the end of the
  track; the first index that \<^verbatim>\<open>publish_waypoints\<close> computes for a pose and a track,
  when the scan and the two \<^verbatim>\<open>fmod\<close> calls return; and the message with the window that
  starts at an index. The theorems below relate them to \<open>publish_waypoints\<close>.
\<close>

definition window :: "'f waypoint list \<Rightarrow> nat \<Rightarrow> nat \<Rightarrow> 'f waypoint list" where
  "window wps first_id n = map (\<lambda>i. wps ! ((first_id + i) mod length wps)) [0..<n]"

definition first_id_of ::
  "'f arith \<Rightarrow> ('f quaternion \<Rightarrow> 'f) \<Rightarrow> 'f pose_stamped \<Rightarrow> 'f waypoint list \<Rightarrow> error + nat" where
  "first_id_of fl yaw_of p wps =
     (let ego_pos = get_position (PoseStampedObj p)
      in and_then (find_closest fl ego_pos wps) (\<lambda>best.
         and_then (heading_to fl ego_pos (get_position (WaypointObj (wps ! fst best)))) (\<lambda>heading.
         and_then (normalise_yaw fl (yaw_of (get_orientation (PoseStampedObj p)))) (\<lambda>ego_yaw.
         Inr (select_first fl (fst best) (length wps) (folded_angle fl ego_yaw heading))))))"

definition window_msg :: "'f node \<Rightarrow> nat \<Rightarrow> 'f lane" where
  "window_msg s first_id =
     \<lparr>lane_header = (lane_header (final_waypoints s))\<lparr>stamp := stamp (ps_header (ego_pose s))\<rparr>,
      lane_waypoints = window (waypoints s) first_id LOOKAHEAD_WPS\<rparr>"

subsection \<open>Properties an arithmetic may have\<close>

text \<open>
  \<open>f_leq\<close> holds of two values when the comparison of the arithmetic puts the first
  below the second, or when they are the same value. A set of float values is ordered
  when the comparison is a strict weak order on it, as it is on every set of doubles
  without NaN.
\<close>

definition f_leq :: "'f arith \<Rightarrow> 'f \<Rightarrow> 'f \<Rightarrow> bool" where
  "f_leq fl a b = (f_less fl a b \<or> a = b)"

definition ordered_on :: "'f arith \<Rightarrow> 'f set \<Rightarrow> bool" where
  "ordered_on fl V =
     ((\<forall>a\<in>V. \<not> f_less fl a a) \<and>
      (\<forall>a\<in>V. \<forall>b\<in>V. \<forall>c\<in>V. f_less fl a b \<longrightarrow> f_less fl b c \<longrightarrow> f_less fl a c) \<and>
      (\<forall>a\<in>V. \<forall>b\<in>V. \<forall>c\<in>V. f_less fl a c \<longrightarrow> f_less fl a b \<or> f_less fl b c))"

text \<open>
  What the angle computation needs of the arithmetic, with \<open>t\<close> for \<^verbatim>\<open>2 * math.pi\<close>:
  \<^verbatim>\<open>fmod\<close> by \<open>t\<close> takes a value from \<open>0\<close> on into \<open>[0, t)\<close>; the absolute difference of two
  values of \<open>[0, t)\<close> lies in \<open>[0, t)\<close>; \<open>t - a\<close> lies in \<open>[0, \<pi>]\<close> for \<open>a\<close> between \<open>\<pi>\<close> and
  \<open>t\<close>; and a value from \<open>0\<close> on that is not above \<open>\<pi>\<close> is at most \<open>\<pi>\<close>.
\<close>

definition angle_arith :: "'f arith \<Rightarrow> bool" where
  "angle_arith fl =
     ((\<forall>x r. f_leq fl (f_zero fl) x \<longrightarrow> f_fmod fl x (two_pi fl) = Inr r \<longrightarrow>
         f_leq fl (f_zero fl) r \<and> f_less fl r (two_pi fl)) \<and>
      (\<forall>u v. f_leq fl (f_zero fl) u \<longrightarrow> f_less fl u (two_pi fl) \<longrightarrow>
             f_leq fl (f_zero fl) v \<longrightarrow> f_less fl v (two_pi fl) \<longrightarrow>
         f_leq fl (f_zero fl) (f_fabs fl (f_sub fl u v)) \<and>
         f_less fl (f_fabs fl (f_sub fl u v)) (two_pi fl)) \<and>
      (\<forall>a. f_less fl (f_pi fl) a \<longrightarrow> f_less fl a (two_pi fl) \<longrightarrow>
         f_leq fl (f_zero fl) (f_sub fl (two_pi fl) a) \<and>
         f_leq fl (f_sub fl (two_pi fl) a) (f_pi fl)) \<and>
      (\<forall>a. f_leq fl (f_zero fl) a \<longrightarrow> \<not> f_less fl (f_pi fl) a \<longrightarrow> f_leq fl a (f_pi fl)))"

subsection \<open>The arithmetic of the reals\<close>

text \<open>
  The arithmetic in which the theorems are exercised, and in which the concrete runs
  below are computed: the real numbers with exact operations, and with the failures of
  the Python operations. It is not the arithmetic of the doubles: nothing is rounded,
  and there is one zero, no infinity and no NaN. \<^verbatim>\<open>x ** 2\<close> raises \<^verbatim>\<open>OverflowError\<close> when the square lies beyond
  the doubles, that is from \<open>2\<^sup>1\<^sup>0\<^sup>2\<^sup>4 - 2\<^sup>9\<^sup>7\<^sup>0\<close> on; \<^verbatim>\<open>math.sqrt\<close> raises \<^verbatim>\<open>ValueError\<close> below
  \<open>0\<close> and \<^verbatim>\<open>math.fmod\<close> for the modulus \<open>0\<close>. The largest double is
  \<open>2\<^sup>1\<^sup>0\<^sup>2\<^sup>4 - 2\<^sup>9\<^sup>7\<^sup>1\<close>.

  \<open>atan2\<close> is the angle of the point \<open>(x, y)\<close>, in \<open>(-\<pi>, \<pi>]\<close>, and \<open>fmod x y\<close> is
  \<open>x - n \<sqdot> y\<close> with \<open>n\<close> the quotient \<open>x / y\<close> truncated towards zero.
\<close>

definition atan2 :: "real \<Rightarrow> real \<Rightarrow> real" where
  "atan2 y x =
     (if x > 0 then arctan (y / x)
      else if x < 0 \<and> y \<ge> 0 then arctan (y / x) + pi
      else if x < 0 \<and> y < 0 then arctan (y / x) - pi
      else if y > 0 then pi / 2
      else if y < 0 then - pi / 2
      else 0)"

definition trunc :: "real \<Rightarrow> int" where
  "trunc r = (if r \<ge> 0 then \<lfloor>r\<rfloor> else \<lceil>r\<rceil>)"

definition fmod :: "real \<Rightarrow> real \<Rightarrow> real" where
  "fmod x y = x - of_int (trunc (x / y)) * y"

definition real_arith :: "real arith" where
  "real_arith =
     \<lparr>f_zero = 0,
      f_two = 2,
      f_pi = pi,
      f_max = 2 ^ 1024 - 2 ^ 971,
      f_0_01 = 1 / 100,
      f_3_6 = 36 / 10,
      f_add = (\<lambda>a b. a + b),
      f_sub = (\<lambda>a b. a - b),
      f_mul = (\<lambda>a b. a * b),
      f_div = (\<lambda>a b. a / b),
      f_sqr = (\<lambda>a. if 2 ^ 1024 - 2 ^ 970 \<le> a * a then Inl OverflowError else Inr (a * a)),
      f_sqrt = (\<lambda>a. if a < 0 then Inl ValueError else Inr (sqrt a)),
      f_less = (\<lambda>a b. a < b),
      f_fabs = (\<lambda>a. \<bar>a\<bar>),
      f_atan2 = atan2,
      f_fmod = (\<lambda>a b. if b = 0 then Inl ValueError else Inr (fmod a b))\<rparr>"

subsection \<open>Not a number\<close>

text \<open>
  A double can be NaN. Every operation the node uses returns NaN when an argument is NaN:
  \<^verbatim>\<open>x ** 2\<close>, \<^verbatim>\<open>math.sqrt\<close>, \<^verbatim>\<open>math.fmod\<close> and \<^verbatim>\<open>math.atan2\<close> do not raise on it, and every
  comparison with NaN is \<^verbatim>\<open>False\<close>. \<open>with_nan\<close> adds such a value, \<open>None\<close>, to an arithmetic.
\<close>

definition lift2 :: "('f \<Rightarrow> 'f \<Rightarrow> 'f) \<Rightarrow> 'f option \<Rightarrow> 'f option \<Rightarrow> 'f option" where
  "lift2 f a b =
     (case a of None \<Rightarrow> None
      | Some x \<Rightarrow> (case b of None \<Rightarrow> None | Some y \<Rightarrow> Some (f x y)))"

definition lift_raising :: "('f \<Rightarrow> error + 'f) \<Rightarrow> 'f option \<Rightarrow> error + 'f option" where
  "lift_raising f a =
     (case a of None \<Rightarrow> Inr None
      | Some x \<Rightarrow> (case f x of Inl e \<Rightarrow> Inl e | Inr v \<Rightarrow> Inr (Some v)))"

definition with_nan :: "'f arith \<Rightarrow> 'f option arith" where
  "with_nan fl =
     \<lparr>f_zero = Some (f_zero fl),
      f_two = Some (f_two fl),
      f_pi = Some (f_pi fl),
      f_max = Some (f_max fl),
      f_0_01 = Some (f_0_01 fl),
      f_3_6 = Some (f_3_6 fl),
      f_add = lift2 (f_add fl),
      f_sub = lift2 (f_sub fl),
      f_mul = lift2 (f_mul fl),
      f_div = lift2 (f_div fl),
      f_sqr = lift_raising (f_sqr fl),
      f_sqrt = lift_raising (f_sqrt fl),
      f_less = (\<lambda>a b. case a of None \<Rightarrow> False
                  | Some x \<Rightarrow> (case b of None \<Rightarrow> False | Some y \<Rightarrow> f_less fl x y)),
      f_fabs = map_option (f_fabs fl),
      f_atan2 = lift2 (f_atan2 fl),
      f_fmod = (\<lambda>a b. case b of None \<Rightarrow> Inr None | Some y \<Rightarrow> lift_raising (\<lambda>x. f_fmod fl x y) a)\<rparr>"

subsection \<open>The yaw of a quaternion\<close>

text \<open>
  The yaw that \<^verbatim>\<open>tf.transformations.euler_from_quaternion\<close> computes for the default
  axes, over the reals: the quaternion \<open>(x, y, z, w)\<close> is scaled, turned into a rotation
  matrix, and the yaw is the angle of the first column of the matrix in the plane. The
  library is not part of the repository; the theorems hold for every \<open>yaw_of\<close> and are
  exercised at this one.
\<close>

definition EPS :: real where
  "EPS = 4 / 2 ^ 52"

definition euler_from_quaternion_yaw :: "real quaternion \<Rightarrow> real" where
  "euler_from_quaternion_yaw q =
     (let nq = q_x q * q_x q + q_y q * q_y q + q_z q * q_z q + q_w q * q_w q;
          (m00, m10) =
            (if nq < EPS then (1, 0)
             else
               let k = sqrt (2 / nq);
                   x = q_x q * k; y = q_y q * k; z = q_z q * k; w = q_w q * k
               in (1 - y * y - z * z, x * y + z * w));
          cy = sqrt (m00 * m00 + m10 * m10)
      in if cy > EPS then atan2 m10 m00 else 0)"

subsection \<open>A square track\<close>

text \<open>
  Four waypoints on the corners of the unit square, the node after it has received them,
  and a pose of the vehicle in the plane with yaw \<open>0\<close>.
\<close>

definition waypoint_at :: "real \<Rightarrow> real \<Rightarrow> real waypoint" where
  "waypoint_at x y =
     (Waypoint_new real_arith)\<lparr>wp_pose := (PoseStamped_new real_arith)\<lparr>ps_pose :=
       \<lparr>position = \<lparr>pt_x = x, pt_y = y, pt_z = 0\<rparr>, orientation = Quaternion_new real_arith\<rparr>\<rparr>\<rparr>"

definition square_track :: "real waypoint list" where
  "square_track = [waypoint_at 0 0, waypoint_at 1 0, waypoint_at 1 1, waypoint_at 0 1]"

definition square_node :: "real node" where
  "square_node =
     snd (waypoints_cb real_arith \<lparr>lane_header = Header_new, lane_waypoints = square_track\<rparr>
            (Some 40) (init real_arith 0))"

definition pose_at :: "real \<Rightarrow> real \<Rightarrow> real pose_stamped" where
  "pose_at x y =
     \<lparr>ps_header = Header_new\<lparr>stamp := (1, 0)\<rparr>,
      ps_pose = \<lparr>position = \<lparr>pt_x = x, pt_y = y, pt_z = 0\<rparr>,
                 orientation = \<lparr>q_x = 0, q_y = 0, q_z = 0, q_w = 1\<rparr>\<rparr>\<rparr>"

definition square_node_at :: "real pose_stamped \<Rightarrow> real node" where
  "square_node_at p = square_node\<lparr>ego_pose := p\<rparr>"

text \<open>
  The same with NaN in the arithmetic: a track of one waypoint at \<open>(1, 0, 0)\<close>, and a
  position of the vehicle whose \<open>x\<close> is NaN.
\<close>

definition nan_track :: "real option waypoint list" where
  "nan_track =
     [(Waypoint_new (with_nan real_arith))\<lparr>wp_pose := (PoseStamped_new (with_nan real_arith))\<lparr>ps_pose :=
        \<lparr>position = \<lparr>pt_x = Some 1, pt_y = Some 0, pt_z = Some 0\<rparr>,
         orientation = Quaternion_new (with_nan real_arith)\<rparr>\<rparr>\<rparr>]"

definition nan_position :: "real option point" where
  "nan_position = \<lparr>pt_x = None, pt_y = Some 0, pt_z = Some 0\<rparr>"

subsection \<open>Reachable states\<close>

text \<open>
  The states of the node: the one \<^verbatim>\<open>__init__\<close> builds, and those a callback leaves
  behind, whether it returned or raised.
\<close>

inductive reachable :: "'f arith \<Rightarrow> ('f quaternion \<Rightarrow> 'f) \<Rightarrow> 'f node \<Rightarrow> bool"
  for fl yaw_of where
  start: "reachable fl yaw_of (init fl now)"
| pose: "reachable fl yaw_of s \<Longrightarrow> reachable fl yaw_of (snd (pose_cb fl yaw_of p s))"
| track: "reachable fl yaw_of s \<Longrightarrow> reachable fl yaw_of (snd (waypoints_cb fl msg velocity s))"
| traffic: "reachable fl yaw_of s \<Longrightarrow> reachable fl yaw_of (snd (traffic_cb data s))"
| obstacle: "reachable fl yaw_of s \<Longrightarrow> reachable fl yaw_of (snd (obstacle_cb data s))"

section \<open>Properties\<close>

subsection \<open>Sequencing and the arithmetic of the reals\<close>

lemma and_then_simps:
  "and_then (Inl e) k = Inl e"
  "and_then (Inr v) k = k v"
  by (simp_all add: and_then_def)

lemma real_arith_simps:
  "f_zero real_arith = 0"
  "f_two real_arith = 2"
  "f_pi real_arith = pi"
  "f_max real_arith = 2 ^ 1024 - 2 ^ 971"
  "f_0_01 real_arith = 1 / 100"
  "f_3_6 real_arith = 36 / 10"
  "f_add real_arith a b = a + b"
  "f_sub real_arith a b = a - b"
  "f_mul real_arith a b = a * b"
  "f_div real_arith a b = a / b"
  "f_sqr real_arith a = (if 2 ^ 1024 - 2 ^ 970 \<le> a * a then Inl OverflowError else Inr (a * a))"
  "f_sqrt real_arith a = (if a < 0 then Inl ValueError else Inr (sqrt a))"
  "f_less real_arith a b = (a < b)"
  "f_fabs real_arith a = \<bar>a\<bar>"
  "f_atan2 real_arith = atan2"
  "f_fmod real_arith a b = (if b = 0 then Inl ValueError else Inr (fmod a b))"
  by (simp_all add: real_arith_def)

lemma ordered_on_real: "ordered_on real_arith V"
  by (auto simp: ordered_on_def real_arith_simps)

lemma sqr_real:
  assumes "\<bar>a\<bar> \<le> 2 ^ 500"
  shows "f_sqr real_arith a = Inr (a * a)"
proof -
  have "a * a = \<bar>a\<bar> * \<bar>a\<bar>" by simp
  also have "\<dots> \<le> 2 ^ 500 * 2 ^ 500"
    using assms by (intro mult_mono) simp_all
  also have "\<dots> < (2 ^ 1024 - 2 ^ 970 :: real)" by simp
  finally show ?thesis by (simp add: real_arith_simps)
qed

lemma sqr_real_overflow:
  assumes "2 ^ 512 \<le> \<bar>a\<bar>"
  shows "f_sqr real_arith a = Inl OverflowError"
proof -
  have "(2 ^ 1024 - 2 ^ 970 :: real) \<le> 2 ^ 512 * 2 ^ 512" by simp
  also have "\<dots> \<le> \<bar>a\<bar> * \<bar>a\<bar>"
    using assms by (intro mult_mono) simp_all
  also have "\<dots> = a * a" by simp
  finally show ?thesis by (simp add: real_arith_simps)
qed

lemma distance_components:
  assumes "f_sqr fl (f_sub fl (pt_x p1) (pt_x p2)) = Inr dx"
    and "f_sqr fl (f_sub fl (pt_y p1) (pt_y p2)) = Inr dy"
    and "f_sqr fl (f_sub fl (pt_z p1) (pt_z p2)) = Inr dz"
    and "f_sqrt fl (f_add fl (f_add fl dx dy) dz) = Inr d"
  shows "distance fl p1 p2 = Inr d"
  using assms by (simp add: distance_def and_then_simps)

lemma distance_components_real:
  assumes "\<bar>pt_x p1 - pt_x p2\<bar> \<le> 2 ^ 500"
    and "\<bar>pt_y p1 - pt_y p2\<bar> \<le> 2 ^ 500"
    and "\<bar>pt_z p1 - pt_z p2\<bar> \<le> 2 ^ 500"
  shows "\<exists>dx dy dz.
           f_sqr real_arith (f_sub real_arith (pt_x p1) (pt_x p2)) = Inr dx \<and>
           f_sqr real_arith (f_sub real_arith (pt_y p1) (pt_y p2)) = Inr dy \<and>
           f_sqr real_arith (f_sub real_arith (pt_z p1) (pt_z p2)) = Inr dz \<and>
           f_sqrt real_arith (f_add real_arith (f_add real_arith dx dy) dz) =
             Inr (sqrt ((pt_x p1 - pt_x p2)\<^sup>2 + (pt_y p1 - pt_y p2)\<^sup>2 + (pt_z p1 - pt_z p2)\<^sup>2))"
proof -
  let ?dx = "(pt_x p1 - pt_x p2) * (pt_x p1 - pt_x p2)"
  let ?dy = "(pt_y p1 - pt_y p2) * (pt_y p1 - pt_y p2)"
  let ?dz = "(pt_z p1 - pt_z p2) * (pt_z p1 - pt_z p2)"
  have x: "f_sqr real_arith (f_sub real_arith (pt_x p1) (pt_x p2)) = Inr ?dx"
    unfolding real_arith_simps(8) by (rule sqr_real [OF assms(1)])
  have y: "f_sqr real_arith (f_sub real_arith (pt_y p1) (pt_y p2)) = Inr ?dy"
    unfolding real_arith_simps(8) by (rule sqr_real [OF assms(2)])
  have z: "f_sqr real_arith (f_sub real_arith (pt_z p1) (pt_z p2)) = Inr ?dz"
    unfolding real_arith_simps(8) by (rule sqr_real [OF assms(3)])
  have "\<not> ?dx + ?dy + ?dz < 0"
    by (simp add: not_less add_nonneg_nonneg)
  then have r: "f_sqrt real_arith (f_add real_arith (f_add real_arith ?dx ?dy) ?dz) =
      Inr (sqrt ((pt_x p1 - pt_x p2)\<^sup>2 + (pt_y p1 - pt_y p2)\<^sup>2 + (pt_z p1 - pt_z p2)\<^sup>2))"
    by (simp add: real_arith_simps(7,12) power2_eq_square)
  from x y z r show ?thesis by blast
qed

lemma distance_real:
  assumes "\<bar>pt_x p1 - pt_x p2\<bar> \<le> 2 ^ 500"
    and "\<bar>pt_y p1 - pt_y p2\<bar> \<le> 2 ^ 500"
    and "\<bar>pt_z p1 - pt_z p2\<bar> \<le> 2 ^ 500"
  shows "distance real_arith p1 p2 =
           Inr (sqrt ((pt_x p1 - pt_x p2)\<^sup>2 + (pt_y p1 - pt_y p2)\<^sup>2 + (pt_z p1 - pt_z p2)\<^sup>2))"
proof -
  have "\<not> (pt_x p1 - pt_x p2) * (pt_x p1 - pt_x p2) + (pt_y p1 - pt_y p2) * (pt_y p1 - pt_y p2)
          + (pt_z p1 - pt_z p2) * (pt_z p1 - pt_z p2) < 0"
    by (simp add: not_less add_nonneg_nonneg)
  then show ?thesis
    using sqr_real [OF assms(1)] sqr_real [OF assms(2)] sqr_real [OF assms(3)]
    by (simp add: distance_def real_arith_simps(7,8,12) and_then_simps power2_eq_square)
qed

lemma distance_real_near:
  assumes "\<bar>pt_x p1\<bar> \<le> 2" "\<bar>pt_y p1\<bar> \<le> 2" "\<bar>pt_z p1\<bar> \<le> 2"
    and "\<bar>pt_x p2\<bar> \<le> 2" "\<bar>pt_y p2\<bar> \<le> 2" "\<bar>pt_z p2\<bar> \<le> 2"
  shows "distance real_arith p1 p2 =
           Inr (sqrt ((pt_x p1 - pt_x p2)\<^sup>2 + (pt_y p1 - pt_y p2)\<^sup>2 + (pt_z p1 - pt_z p2)\<^sup>2))"
proof -
  have big: "(4::real) \<le> 2 ^ 500" by simp
  have x: "\<bar>pt_x p1 - pt_x p2\<bar> \<le> 2 ^ 500" using assms(1,4) big by linarith
  have y: "\<bar>pt_y p1 - pt_y p2\<bar> \<le> 2 ^ 500" using assms(2,5) big by linarith
  have z: "\<bar>pt_z p1 - pt_z p2\<bar> \<le> 2 ^ 500" using assms(3,6) big by linarith
  show ?thesis by (rule distance_real [OF x y z])
qed

lemma float_max_gt: "2 < f_max real_arith"
  by (simp add: real_arith_simps)

lemma sqrt_less_float_max: "x < 4 \<Longrightarrow> sqrt x < f_max real_arith"
proof -
  assume "x < 4"
  then have "sqrt x < sqrt 4" by (simp only: real_sqrt_less_iff)
  also have "sqrt 4 = (2::real)" by simp
  finally show ?thesis using float_max_gt by linarith
qed

lemma closest_step_real:
  assumes "distance real_arith p (position (ps_pose (wp_pose wp))) = Inr d"
  shows "closest_step real_arith p (Inr (i, c)) (n, wp) = Inr (if d < c then (n, d) else (i, c))"
  using assms by (simp add: closest_step_def and_then_simps real_arith_simps(13))

subsection \<open>The node on the square track\<close>

lemma square_node_simps:
  "waypoints square_node = square_track"
  "wp_traffic_light square_node = - 1"
  "wp_obstacle square_node = - 1"
  "ego_pose square_node = PoseStamped_new real_arith"
  "ego_pose_queue square_node = []"
  "published square_node = []"
  "length (lane_waypoints (final_waypoints square_node)) = LOOKAHEAD_WPS"
  by (simp_all add: square_node_def waypoints_cb_def init_def WP_UNDEFINED_def)

lemma length_square_track: "length square_track = 4"
  by (simp add: square_track_def)

lemma square_track_positions:
  "map (\<lambda>w. position (ps_pose (wp_pose w))) square_track =
     [\<lparr>pt_x = 0, pt_y = 0, pt_z = 0\<rparr>, \<lparr>pt_x = 1, pt_y = 0, pt_z = 0\<rparr>,
      \<lparr>pt_x = 1, pt_y = 1, pt_z = 0\<rparr>, \<lparr>pt_x = 0, pt_y = 1, pt_z = 0\<rparr>]"
  by (simp add: square_track_def waypoint_at_def)

lemma pose_at_simps:
  "position (ps_pose (pose_at x y)) = \<lparr>pt_x = x, pt_y = y, pt_z = 0\<rparr>"
  "orientation (ps_pose (pose_at x y)) = \<lparr>q_x = 0, q_y = 0, q_z = 0, q_w = 1\<rparr>"
  "stamp (ps_header (pose_at x y)) = (1, 0)"
  by (simp_all add: pose_at_def)

lemma distance_pose_at_origin:
  assumes "0 \<le> x" and "x \<le> 2"
  shows "distance real_arith (position (ps_pose (pose_at x 0)))
           (position (ps_pose (PoseStamped_new real_arith))) = Inr x"
proof -
  let ?p = "position (ps_pose (pose_at x 0))"
  let ?q = "position (ps_pose (PoseStamped_new real_arith))"
  have c: "pt_x ?p = x" "pt_y ?p = 0" "pt_z ?p = 0" "pt_x ?q = 0" "pt_y ?q = 0" "pt_z ?q = 0"
    by (simp_all add: pose_at_def PoseStamped_new_def Point_new_def real_arith_simps(1))
  have big: "(2::real) \<le> 2 ^ 500" by simp
  have bx: "\<bar>pt_x ?p - pt_x ?q\<bar> \<le> 2 ^ 500"
    unfolding c using assms big by linarith
  have by': "\<bar>pt_y ?p - pt_y ?q\<bar> \<le> 2 ^ 500"
    unfolding c by simp
  have bz: "\<bar>pt_z ?p - pt_z ?q\<bar> \<le> 2 ^ 500"
    unfolding c by simp
  have "distance real_arith ?p ?q =
          Inr (sqrt ((pt_x ?p - pt_x ?q)\<^sup>2 + (pt_y ?p - pt_y ?q)\<^sup>2 + (pt_z ?p - pt_z ?q)\<^sup>2))"
    by (rule distance_real [OF bx by' bz])
  also have "\<dots> = Inr x"
    using assms(1) by (simp add: c)
  finally show ?thesis .
qed

lemma distance_square_node:
  assumes "0 \<le> x" and "x \<le> 2"
  shows "distance real_arith (position (ps_pose (pose_at x 0)))
           (position (ps_pose (ego_pose square_node))) = Inr x"
  using distance_pose_at_origin [OF assms] by (simp add: square_node_simps)

subsection \<open>The scan for the closest waypoint\<close>

text \<open>
  The scan returns exactly when every distance does. When it returns, it holds the first
  index of the least distance computed, provided the comparison orders the distances and
  one of them is below the starting value.
\<close>

lemma enumerate_snoc: "enumerate n (xs @ [x]) = enumerate n xs @ [(n + length xs, x)]"
  by (simp add: enumerate_append_eq)

lemma find_closest_snoc:
  "find_closest fl ego_pos (wps @ [wp]) =
     closest_step fl ego_pos (find_closest fl ego_pos wps) (length wps, wp)"
  by (simp add: find_closest_def enumerate_snoc)

lemma closest_step_Inr:
  assumes "closest_step fl p acc (n, wp) = Inr r"
  obtains best dist where "acc = Inr best"
    and "distance fl p (get_position (WaypointObj wp)) = Inr dist"
    and "r = (if f_less fl dist (snd best) then (n, dist) else best)"
  using assms
  by (auto simp: closest_step_def and_then_def split: sum.splits)

lemma find_closest_all_return:
  "find_closest fl p wps = Inr r \<Longrightarrow>
     \<forall>wp \<in> set wps. \<exists>d. distance fl p (get_position (WaypointObj wp)) = Inr d"
proof (induction wps arbitrary: r rule: rev_induct)
  case Nil
  then show ?case by simp
next
  case (snoc wp wps)
  from snoc.prems have "closest_step fl p (find_closest fl p wps) (length wps, wp) = Inr r"
    by (simp add: find_closest_snoc)
  then obtain best dist where "find_closest fl p wps = Inr best"
    and "distance fl p (get_position (WaypointObj wp)) = Inr dist"
    by (rule closest_step_Inr)
  with snoc.IH show ?case by auto
qed

lemma find_closest_index:
  "find_closest fl p wps = Inr r \<Longrightarrow> fst r = 0 \<or> fst r < length wps"
proof (induction wps arbitrary: r rule: rev_induct)
  case Nil
  then show ?case by (auto simp: find_closest_def)
next
  case (snoc wp wps)
  from snoc.prems have "closest_step fl p (find_closest fl p wps) (length wps, wp) = Inr r"
    by (simp add: find_closest_snoc)
  then obtain best dist where b: "find_closest fl p wps = Inr best"
    and r: "r = (if f_less fl dist (snd best) then (length wps, dist) else best)"
    by (rule closest_step_Inr)
  from snoc.IH [OF b] r show ?case by (auto split: if_splits)
qed

lemma find_closest_in_range:
  "wps \<noteq> [] \<Longrightarrow> find_closest fl p wps = Inr r \<Longrightarrow> fst r < length wps"
  using find_closest_index [of fl p wps r] by auto

lemma find_closest_raises:
  assumes "wp \<in> set wps" and "distance fl p (get_position (WaypointObj wp)) = Inl e"
  shows "\<exists>e'. find_closest fl p wps = Inl e'"
proof (cases "find_closest fl p wps")
  case (Inl e')
  then show ?thesis by blast
next
  case (Inr r)
  from find_closest_all_return [OF Inr] assms show ?thesis by auto
qed

lemma find_closest_inv:
  assumes dist: "\<forall>j < length wps. distance fl p (get_position (WaypointObj (wps ! j))) = Inr (d j)"
    and V: "f_max fl \<in> V" "\<forall>j < length wps. d j \<in> V"
    and ord: "ordered_on fl V"
  shows "(find_closest fl p wps = Inr (0, f_max fl) \<and>
            (\<forall>j < length wps. \<not> f_less fl (d j) (f_max fl)))
         \<or> (\<exists>i < length wps. find_closest fl p wps = Inr (i, d i) \<and>
              f_less fl (d i) (f_max fl) \<and>
              (\<forall>j < length wps. \<not> f_less fl (d j) (d i)) \<and>
              (\<forall>j < i. f_less fl (d i) (d j)))"
  using dist V(2)
proof (induction wps rule: rev_induct)
  case Nil
  then show ?case by (simp add: find_closest_def)
next
  case (snoc wp wps)
  let ?n = "length wps"
  from ord have irr: "\<And>a. a \<in> V \<Longrightarrow> \<not> f_less fl a a"
    and tr: "\<And>a b c. a \<in> V \<Longrightarrow> b \<in> V \<Longrightarrow> c \<in> V \<Longrightarrow>
               f_less fl a b \<Longrightarrow> f_less fl b c \<Longrightarrow> f_less fl a c"
    and nt: "\<And>a b c. a \<in> V \<Longrightarrow> b \<in> V \<Longrightarrow> c \<in> V \<Longrightarrow>
               f_less fl a c \<Longrightarrow> f_less fl a b \<or> f_less fl b c"
    unfolding ordered_on_def by blast+
  have dn: "distance fl p (get_position (WaypointObj wp)) = Inr (d ?n)"
    using snoc.prems(1) [rule_format, of ?n] by simp
  have dj: "\<forall>j < ?n. distance fl p (get_position (WaypointObj (wps ! j))) = Inr (d j)"
  proof (intro allI impI)
    fix j assume "j < ?n"
    then show "distance fl p (get_position (WaypointObj (wps ! j))) = Inr (d j)"
      using snoc.prems(1) [rule_format, of j] by (simp add: nth_append)
  qed
  have inV: "\<And>j. j \<le> ?n \<Longrightarrow> d j \<in> V"
    using snoc.prems(2) by simp
  then have inV': "\<forall>j < ?n. d j \<in> V" by simp
  note IH = snoc.IH [OF dj inV']
  have step: "find_closest fl p (wps @ [wp]) =
      and_then (find_closest fl p wps) (\<lambda>best.
        Inr (if f_less fl (d ?n) (snd best) then (?n, d ?n) else best))"
    using dn by (cases "find_closest fl p wps")
      (simp_all add: find_closest_snoc closest_step_def and_then_simps)
  from IH show ?case
  proof (elim disjE conjE exE)
    assume fc: "find_closest fl p wps = Inr (0, f_max fl)"
      and all: "\<forall>j < ?n. \<not> f_less fl (d j) (f_max fl)"
    show ?thesis
    proof (cases "f_less fl (d ?n) (f_max fl)")
      case True
      have a: "\<forall>j < length (wps @ [wp]). \<not> f_less fl (d j) (d ?n)"
      proof (intro allI impI)
        fix j assume "j < length (wps @ [wp])"
        then have "j < ?n \<or> j = ?n" by auto
        then show "\<not> f_less fl (d j) (d ?n)"
        proof
          assume j: "j < ?n"
          show ?thesis
          proof
            assume "f_less fl (d j) (d ?n)"
            with True have "f_less fl (d j) (f_max fl)"
              using tr [of "d j" "d ?n" "f_max fl"] inV [of j] inV [of ?n] V(1) j by simp
            with all j show False by simp
          qed
        next
          assume "j = ?n"
          then show ?thesis using irr [of "d ?n"] inV [of ?n] by simp
        qed
      qed
      have b: "\<forall>j < ?n. f_less fl (d ?n) (d j)"
      proof (intro allI impI)
        fix j assume j: "j < ?n"
        from True have "f_less fl (d ?n) (d j) \<or> f_less fl (d j) (f_max fl)"
          using nt [of "d ?n" "d j" "f_max fl"] inV [of j] inV [of ?n] V(1) j by simp
        with all j show "f_less fl (d ?n) (d j)" by simp
      qed
      have "find_closest fl p (wps @ [wp]) = Inr (?n, d ?n)"
        using True by (simp add: step fc and_then_simps)
      with True a b show ?thesis
        by (intro disjI2 exI [of _ ?n]) simp
    next
      case False
      have "find_closest fl p (wps @ [wp]) = Inr (0, f_max fl)"
        using False by (simp add: step fc and_then_simps)
      moreover have "\<forall>j < length (wps @ [wp]). \<not> f_less fl (d j) (f_max fl)"
        using all False by (auto simp: less_Suc_eq)
      ultimately show ?thesis by blast
    qed
  next
    fix i
    assume i: "i < ?n"
      and fc: "find_closest fl p wps = Inr (i, d i)"
      and lt: "f_less fl (d i) (f_max fl)"
      and all: "\<forall>j < ?n. \<not> f_less fl (d j) (d i)"
      and before: "\<forall>j < i. f_less fl (d i) (d j)"
    show ?thesis
    proof (cases "f_less fl (d ?n) (d i)")
      case True
      have m: "f_less fl (d ?n) (f_max fl)"
        using tr [of "d ?n" "d i" "f_max fl"] True lt inV [of i] inV [of ?n] V(1) i by simp
      have a: "\<forall>j < length (wps @ [wp]). \<not> f_less fl (d j) (d ?n)"
      proof (intro allI impI)
        fix j assume "j < length (wps @ [wp])"
        then have "j < ?n \<or> j = ?n" by auto
        then show "\<not> f_less fl (d j) (d ?n)"
        proof
          assume j: "j < ?n"
          show ?thesis
          proof
            assume "f_less fl (d j) (d ?n)"
            with True have "f_less fl (d j) (d i)"
              using tr [of "d j" "d ?n" "d i"] inV [of j] inV [of ?n] inV [of i] i j by simp
            with all j show False by simp
          qed
        next
          assume "j = ?n"
          then show ?thesis using irr [of "d ?n"] inV [of ?n] by simp
        qed
      qed
      have b: "\<forall>j < ?n. f_less fl (d ?n) (d j)"
      proof (intro allI impI)
        fix j assume j: "j < ?n"
        from True have "f_less fl (d ?n) (d j) \<or> f_less fl (d j) (d i)"
          using nt [of "d ?n" "d j" "d i"] inV [of j] inV [of ?n] inV [of i] i j by simp
        with all j show "f_less fl (d ?n) (d j)" by simp
      qed
      have "find_closest fl p (wps @ [wp]) = Inr (?n, d ?n)"
        using True by (simp add: step fc and_then_simps)
      with m a b show ?thesis
        by (intro disjI2 exI [of _ ?n]) simp
    next
      case False
      have "find_closest fl p (wps @ [wp]) = Inr (i, d i)"
        using False by (simp add: step fc and_then_simps)
      moreover have "\<forall>j < length (wps @ [wp]). \<not> f_less fl (d j) (d i)"
        using all False by (auto simp: less_Suc_eq)
      ultimately show ?thesis
        using i lt before by (intro disjI2 exI [of _ i]) simp
    qed
  qed
qed

text \<open>
  C1, as the code has it. Take a track with at least one waypoint and a position from
  which the distance to every waypoint is computed without an overflow: \<open>d j\<close> is the
  distance the node computes to waypoint \<open>j\<close>, the square root of the sum of the squares
  of the three coordinate differences, in the arithmetic of the node. When these
  distances and \<^verbatim>\<open>sys.float_info.max\<close> are ordered by the comparison, as doubles other than
  NaN are, and one distance is below \<^verbatim>\<open>sys.float_info.max\<close>, the scan returns an index
  \<open>i\<close> of the track together with \<open>d i\<close>; no computed distance is less than \<open>d i\<close>, and
  the computed distance of every earlier waypoint is greater, so that \<open>i\<close> is the
  smallest index of the least computed distance.
\<close>

theorem nearest_scan_minimal:
  assumes "track \<noteq> []"
    and "\<forall>j < length track. \<exists>dx dy dz.
           f_sqr fl (f_sub fl (pt_x pos) (pt_x (position (ps_pose (wp_pose (track ! j)))))) = Inr dx \<and>
           f_sqr fl (f_sub fl (pt_y pos) (pt_y (position (ps_pose (wp_pose (track ! j)))))) = Inr dy \<and>
           f_sqr fl (f_sub fl (pt_z pos) (pt_z (position (ps_pose (wp_pose (track ! j)))))) = Inr dz \<and>
           f_sqrt fl (f_add fl (f_add fl dx dy) dz) = Inr (d j)"
    and "ordered_on fl (insert (f_max fl) (d ` {..<length track}))"
    and "\<exists>j < length track. f_less fl (d j) (f_max fl)"
  shows "\<exists>i < length track.
           find_closest fl pos track = Inr (i, d i) \<and>
           (\<forall>j < length track. \<not> f_less fl (d j) (d i)) \<and>
           (\<forall>j < i. f_less fl (d i) (d j))"
proof -
  let ?V = "insert (f_max fl) (d ` {..<length track})"
  have dist: "\<forall>j < length track.
      distance fl pos (get_position (WaypointObj (track ! j))) = Inr (d j)"
    using assms(2) by (auto intro: distance_components)
  have "f_max fl \<in> ?V" and "\<forall>j < length track. d j \<in> ?V" by auto
  from find_closest_inv [OF dist this assms(3)] assms(4) show ?thesis
    by blast
qed

theorem nearest_scan_minimal_witness:
  "\<exists>c. find_closest real_arith \<lparr>pt_x = 0.9, pt_y = 0.05, pt_z = 0\<rparr> square_track = Inr (1, c)"
proof -
  let ?p = "\<lparr>pt_x = 0.9, pt_y = 0.05, pt_z = 0\<rparr> :: real point"
  let ?d = "\<lambda>j. sqrt ((0.9 - pt_x (position (ps_pose (wp_pose (square_track ! j)))))\<^sup>2 +
                     (0.05 - pt_y (position (ps_pose (wp_pose (square_track ! j)))))\<^sup>2 +
                     (0 - pt_z (position (ps_pose (wp_pose (square_track ! j)))))\<^sup>2)"
  have h1: "square_track \<noteq> []"
    by (simp add: square_track_def)
  have h2: "\<forall>j < length square_track. \<exists>dx dy dz.
      f_sqr real_arith
        (f_sub real_arith (pt_x ?p) (pt_x (position (ps_pose (wp_pose (square_track ! j)))))) = Inr dx \<and>
      f_sqr real_arith
        (f_sub real_arith (pt_y ?p) (pt_y (position (ps_pose (wp_pose (square_track ! j)))))) = Inr dy \<and>
      f_sqr real_arith
        (f_sub real_arith (pt_z ?p) (pt_z (position (ps_pose (wp_pose (square_track ! j)))))) = Inr dz \<and>
      f_sqrt real_arith (f_add real_arith (f_add real_arith dx dy) dz) = Inr (?d j)"
  proof (intro allI impI)
    fix j assume "j < length square_track"
    then have "j = 0 \<or> j = 1 \<or> j = 2 \<or> j = 3"
      by (auto simp: length_square_track)
    then have b: "\<bar>pt_x (position (ps_pose (wp_pose (square_track ! j))))\<bar> \<le> 1 \<and>
                  \<bar>pt_y (position (ps_pose (wp_pose (square_track ! j))))\<bar> \<le> 1 \<and>
                  pt_z (position (ps_pose (wp_pose (square_track ! j)))) = 0"
      by (auto simp: square_track_def waypoint_at_def)
    let ?q = "position (ps_pose (wp_pose (square_track ! j)))"
    have big: "(4::real) \<le> 2 ^ 500" by simp
    have x: "\<bar>pt_x ?p - pt_x ?q\<bar> \<le> 2 ^ 500"
      using b big by simp linarith
    have y: "\<bar>pt_y ?p - pt_y ?q\<bar> \<le> 2 ^ 500"
      using b big by simp linarith
    have z: "\<bar>pt_z ?p - pt_z ?q\<bar> \<le> 2 ^ 500"
      using b big by simp
    from distance_components_real [OF x y z]
    show "\<exists>dx dy dz.
      f_sqr real_arith (f_sub real_arith (pt_x ?p) (pt_x ?q)) = Inr dx \<and>
      f_sqr real_arith (f_sub real_arith (pt_y ?p) (pt_y ?q)) = Inr dy \<and>
      f_sqr real_arith (f_sub real_arith (pt_z ?p) (pt_z ?q)) = Inr dz \<and>
      f_sqrt real_arith (f_add real_arith (f_add real_arith dx dy) dz) = Inr (?d j)"
      by simp
  qed
  have h3: "ordered_on real_arith (insert (f_max real_arith) (?d ` {..<length square_track}))"
    by (rule ordered_on_real)
  have "?d 1 < f_max real_arith"
    by (simp add: square_track_def waypoint_at_def sqrt_less_float_max power2_eq_square)
  then have h4: "\<exists>j < length square_track. f_less real_arith (?d j) (f_max real_arith)"
    by (intro exI [of _ 1]) (simp add: length_square_track real_arith_simps(13))
  from nearest_scan_minimal [of square_track real_arith ?p ?d, OF h1 h2 h3 h4]
  obtain i where i: "i < length square_track"
    and fc: "find_closest real_arith ?p square_track = Inr (i, ?d i)"
    and least: "\<forall>j < length square_track. \<not> f_less real_arith (?d j) (?d i)"
    by blast
  have near: "?d 1 < ?d 0" "?d 1 < ?d 2" "?d 1 < ?d 3"
    by (simp_all add: square_track_def waypoint_at_def power2_eq_square)
  from least have "\<not> ?d 1 < ?d i"
    by (simp add: length_square_track real_arith_simps(13))
  moreover from i have "i = 0 \<or> i = 1 \<or> i = 2 \<or> i = 3"
    by (auto simp: length_square_track)
  ultimately have "i = 1" using near by auto
  with fc show ?thesis by blast
qed

text \<open>
  The scan does not return an index for every track and every position. With the
  vehicle at the origin and a single waypoint at \<open>x = 2\<^sup>7\<^sup>0\<^sup>0\<close>, the square of the
  coordinate difference lies beyond the doubles: \<^verbatim>\<open>x ** 2\<close> raises \<^verbatim>\<open>OverflowError\<close> in
  \<^verbatim>\<open>distance\<close>, and the scan ends with that exception.
\<close>

theorem nearest_scan_counterexample:
  "find_closest real_arith \<lparr>pt_x = 0, pt_y = 0, pt_z = 0\<rparr> [waypoint_at (2 ^ 700) 0] =
     Inl OverflowError"
proof -
  have "f_sqr real_arith (0 - 2 ^ 700) = Inl OverflowError"
    by (rule sqr_real_overflow) simp
  then show ?thesis
    by (simp add: find_closest_def closest_step_def distance_def waypoint_at_def
          real_arith_simps(8) and_then_simps)
qed

subsection \<open>The window loop\<close>

lemma select_first_in_range: "closest_id < n \<Longrightarrow> select_first fl closest_id n angle < n"
  by (simp add: select_first_def)

lemma first_id_of_in_range:
  assumes "wps \<noteq> []" and "first_id_of fl yaw_of p wps = Inr k"
  shows "k < length wps"
proof -
  from assms(2) obtain best where b: "find_closest fl (position (ps_pose p)) wps = Inr best"
    by (auto simp: first_id_of_def and_then_def Let_def split: sum.splits)
  from find_closest_in_range [OF assms(1) b] have "fst best < length wps" .
  with assms(2) b show ?thesis
    by (auto simp: first_id_of_def and_then_def Let_def select_first_in_range split: sum.splits)
qed

lemma window_loop:
  assumes "first_id < length wps" and "n \<le> length fw"
  shows "foldl (window_step wps) (None, fw, first_id) [0..<n] =
           (None, window wps first_id n @ drop n fw, (first_id + n) mod length wps)"
  using assms(2)
proof (induction n)
  case 0
  with assms(1) show ?case by (auto simp: window_def)
next
  case (Suc n)
  from assms(1) have pos: "0 < length wps" by auto
  have len: "length (window wps first_id n) = n" by (simp add: window_def)
  from Suc.prems have n: "n < length fw" by simp
  have upd: "(window wps first_id n @ drop n fw)[n := v] =
               window wps first_id n @ v # drop (Suc n) fw" for v
  proof -
    have "drop n fw = fw ! n # drop (Suc n) fw"
      using n by (simp add: Cons_nth_drop_Suc)
    then show ?thesis using len by (simp add: list_update_append)
  qed
  have nxt: "((first_id + n) mod length wps + 1) mod length wps =
               (first_id + Suc n) mod length wps"
    by (simp add: mod_Suc_eq)
  have lt: "(first_id + n) mod length wps < length wps"
    using pos by simp
  have len': "length (window wps first_id n @ drop n fw) = length fw"
    using n len by simp
  have win: "window wps first_id (Suc n) =
               window wps first_id n @ [wps ! ((first_id + n) mod length wps)]"
    by (simp add: window_def)
  have "foldl (window_step wps) (None, fw, first_id) [0..<Suc n] =
          window_step wps (None, window wps first_id n @ drop n fw,
                           (first_id + n) mod length wps) n"
    using Suc by simp
  also have "\<dots> = (None, (window wps first_id n @ drop n fw)[n := wps ! ((first_id + n) mod length wps)],
                     ((first_id + n) mod length wps + 1) mod length wps)"
    using lt n len' by (simp add: window_step_def)
  also have "\<dots> = (None, window wps first_id (Suc n) @ drop (Suc n) fw,
                     (first_id + Suc n) mod length wps)"
    by (simp only: upd nxt win append_assoc append_Cons append_Nil)
  finally show ?case .
qed

lemma fill_window_eq:
  assumes "first_id < length wps" and "length fw = LOOKAHEAD_WPS"
  shows "fill_window wps fw first_id =
           (None, window wps first_id LOOKAHEAD_WPS, (first_id + LOOKAHEAD_WPS) mod length wps)"
  using window_loop [OF assms(1), of LOOKAHEAD_WPS fw] assms(2)
  by (simp add: fill_window_def)

lemma window_step_length:
  "length (fst (snd (window_step wps acc i))) = length (fst (snd acc))"
  by (cases acc) (auto simp: window_step_def split: option.splits)

lemma fill_window_length: "length (fst (snd (fill_window wps fw first_id))) = length fw"
proof -
  have "length (fst (snd (foldl (window_step wps) acc is))) = length (fst (snd acc))" for acc "is"
    by (induction "is" arbitrary: acc) (simp_all add: window_step_length)
  then show ?thesis by (simp add: fill_window_def)
qed

lemma window_nth:
  "i < n \<Longrightarrow> window wps k n ! i = wps ! ((k + i) mod length wps)"
  by (simp add: window_def)



subsection \<open>What publish\_waypoints publishes\<close>

text \<open>
  With a track, a lane of \<^verbatim>\<open>LOOKAHEAD_WPS\<close> entries and a first index computed,
  \<open>publish_waypoints\<close> raises nothing and hands one message to the publisher; when it
  raises, it hands none. The lane keeps its length in every run, so every reachable
  state has a lane of that length. The overlay indices are never read.
\<close>

lemma log_next_returns:
  assumes "find_closest fl p wps = Inr r" and "k < length wps"
  shows "\<exists>lines. log_next fl p wps k angle = Inr lines"
proof -
  from find_closest_all_return [OF assms(1)] assms(2)
  obtain d where "distance fl p (get_position (WaypointObj (wps ! k))) = Inr d"
    by (meson nth_mem)
  then show ?thesis by (simp add: log_next_def and_then_simps)
qed

lemma publish_waypoints_ok:
  assumes "waypoints s \<noteq> []"
    and "length (lane_waypoints (final_waypoints s)) = LOOKAHEAD_WPS"
    and "first_id_of fl yaw_of (ego_pose s) (waypoints s) = Inr k"
  shows "\<exists>lines. publish_waypoints fl yaw_of s =
           (None, s\<lparr>final_waypoints := window_msg s k,
                    log := log s @ lines,
                    published := published s @ [window_msg s k]\<rparr>)"
proof -
  let ?ego = "position (ps_pose (ego_pose s))"
  from assms(3) obtain best heading yaw
    where b: "find_closest fl ?ego (waypoints s) = Inr best"
      and h: "heading_to fl ?ego (position (ps_pose (wp_pose (waypoints s ! fst best)))) = Inr heading"
      and y: "normalise_yaw fl (yaw_of (orientation (ps_pose (ego_pose s)))) = Inr yaw"
      and k: "k = select_first fl (fst best) (length (waypoints s)) (folded_angle fl yaw heading)"
    by (auto simp: first_id_of_def and_then_def Let_def split: sum.splits)
  have r: "k < length (waypoints s)"
    using assms(1,3) by (rule first_id_of_in_range)
  from log_next_returns [OF b r] obtain lines
    where l: "log_next fl ?ego (waypoints s) k (folded_angle fl yaw heading) = Inr lines"
    by blast
  note fw = fill_window_eq [OF r assms(2)]
  obtain ci cd where best: "best = (ci, cd)" by (cases best)
  show ?thesis
    using assms(1) fw b h y l best k [symmetric]
    by (intro exI [of _ "drop (length (log s)) (log (snd (publish_waypoints fl yaw_of s)))"])
       (simp add: publish_waypoints_def Let_def window_msg_def)
qed

lemma publish_waypoints_frame:
  "ego_pose (snd (publish_waypoints fl yaw_of s)) = ego_pose s \<and>
   ego_pose_queue (snd (publish_waypoints fl yaw_of s)) = ego_pose_queue s \<and>
   waypoints (snd (publish_waypoints fl yaw_of s)) = waypoints s \<and>
   wp_traffic_light (snd (publish_waypoints fl yaw_of s)) = wp_traffic_light s \<and>
   wp_obstacle (snd (publish_waypoints fl yaw_of s)) = wp_obstacle s \<and>
   length (lane_waypoints (final_waypoints (snd (publish_waypoints fl yaw_of s)))) =
     length (lane_waypoints (final_waypoints s))"
  using fill_window_length [of "waypoints s" "lane_waypoints (final_waypoints s)"]
  by (simp add: publish_waypoints_def Let_def case_prod_beta split: option.splits sum.splits)

lemma publish_waypoints_published:
  "(fst (publish_waypoints fl yaw_of s) = None \<longrightarrow>
      (\<exists>msg. published (snd (publish_waypoints fl yaw_of s)) = published s @ [msg])) \<and>
   (fst (publish_waypoints fl yaw_of s) \<noteq> None \<longrightarrow>
      published (snd (publish_waypoints fl yaw_of s)) = published s)"
  by (simp add: publish_waypoints_def Let_def case_prod_beta split: option.splits sum.splits)

lemma publish_waypoints_ignores_overlay:
  "published (snd (publish_waypoints fl yaw_of (s\<lparr>wp_traffic_light := a, wp_obstacle := b\<rparr>))) =
     published (snd (publish_waypoints fl yaw_of s))"
  by (simp add: publish_waypoints_def Let_def case_prod_beta split: option.splits sum.splits)

lemma reachable_lane_length:
  "reachable fl yaw_of s \<Longrightarrow> length (lane_waypoints (final_waypoints s)) = LOOKAHEAD_WPS"
proof (induction rule: reachable.induct)
  case (start now)
  show ?case by (simp add: init_def)
next
  case (pose s p)
  show ?case
  proof (cases "distance fl (position (ps_pose p)) (position (ps_pose (ego_pose s)))")
    case (Inl e)
    with pose.IH show ?thesis by (simp add: pose_cb_def)
  next
    case (Inr d)
    let ?s' = "s\<lparr>log := log s @ [LogEgoPose p d], ego_pose := p,
                 ego_pose_queue := deque_append (ego_pose_queue s) p\<rparr>"
    show ?thesis
    proof (cases "f_less fl d (MIN_UPDATE_DIST fl)")
      case True
      with pose.IH Inr show ?thesis by (simp add: pose_cb_def Let_def)
    next
      case False
      with Inr have "pose_cb fl yaw_of p s = publish_waypoints fl yaw_of ?s'"
        by (simp add: pose_cb_def Let_def VERBOSE_def)
      with pose.IH publish_waypoints_frame [of fl yaw_of ?s'] show ?thesis by simp
    qed
  qed
next
  case (track s msg velocity)
  then show ?case by (simp add: waypoints_cb_def Let_def split: option.splits)
next
  case (traffic s data)
  then show ?case
    by (simp add: traffic_cb_def Let_def self_waypoint_def split: option.splits)
next
  case (obstacle s data)
  then show ?case
    by (simp add: obstacle_cb_def Let_def self_waypoint_def split: option.splits)
qed

subsection \<open>Angles\<close>

lemma fmod_nonneg_range:
  assumes "0 \<le> x" and "0 < y"
  shows "0 \<le> fmod x y \<and> fmod x y < y"
proof -
  from assms have q: "0 \<le> x / y" by simp
  have lo: "of_int \<lfloor>x / y\<rfloor> \<le> x / y" by (rule of_int_floor_le)
  have hi: "x / y < of_int \<lfloor>x / y\<rfloor> + 1" by linarith
  have xy: "x / y * y = x" using assms(2) by simp
  have "of_int \<lfloor>x / y\<rfloor> * y \<le> x / y * y"
    using lo assms(2) by (intro mult_right_mono) simp_all
  then have "of_int \<lfloor>x / y\<rfloor> * y \<le> x" by (simp only: xy)
  moreover have "x / y * y < (of_int \<lfloor>x / y\<rfloor> + 1) * y"
    using hi assms(2) by (intro mult_strict_right_mono) simp_all
  then have "x < (of_int \<lfloor>x / y\<rfloor> + 1) * y" by (simp only: xy)
  ultimately show ?thesis using q
    by (simp add: fmod_def trunc_def algebra_simps)
qed

lemma atan2_range: "- pi \<le> atan2 y x \<and> atan2 y x \<le> pi"
proof -
  have b: "- (pi / 2) < arctan (y / x)" "arctan (y / x) < pi / 2"
    by (rule arctan_lbound, rule arctan_ubound)
  have neg: "x < 0 \<Longrightarrow> 0 \<le> y \<Longrightarrow> arctan (y / x) \<le> 0"
    by (simp add: divide_nonneg_neg arctan_le_zero_iff)
  have pos: "x < 0 \<Longrightarrow> y < 0 \<Longrightarrow> 0 \<le> arctan (y / x)"
    by (simp add: zero_le_arctan_iff zero_le_divide_iff)
  have p: "0 < pi" by simp
  show ?thesis
    using b neg pos p unfolding atan2_def
    by (auto simp: field_simps)
qed

lemma euler_yaw_range:
  "- pi \<le> euler_from_quaternion_yaw q \<and> euler_from_quaternion_yaw q \<le> pi"
  using atan2_range pi_ge_zero
  by (auto simp: euler_from_quaternion_yaw_def Let_def case_prod_beta)

lemma euler_yaw_identity:
  "euler_from_quaternion_yaw \<lparr>q_x = 0, q_y = 0, q_z = 0, q_w = 1\<rparr> = 0"
  by (simp add: euler_from_quaternion_yaw_def EPS_def atan2_def)

lemma fmod_3pi: "fmod (3 * pi) (2 * pi) = pi"
proof -
  have "3 * pi / (2 * pi) = 3 / 2" by simp
  then show ?thesis by (simp add: fmod_def trunc_def)
qed

lemma fmod_2pi: "fmod (0 + 2 * pi) (2 * pi) = 0"
  by (simp add: fmod_def trunc_def)

lemma atan2_neg_x_axis: "x < 0 \<Longrightarrow> atan2 0 x = pi"
  by (simp add: atan2_def)

lemma two_pi_real: "two_pi real_arith = 2 * pi"
  by (simp add: two_pi_def real_arith_simps)

lemma heading_to_real:
  "heading_to real_arith p q =
     Inr (fmod (atan2 (pt_y q - pt_y p) (pt_x q - pt_x p) + 2 * pi) (2 * pi))"
  by (simp add: heading_to_def two_pi_real real_arith_simps)

lemma normalise_yaw_real:
  "normalise_yaw real_arith y = Inr (fmod (y + 2 * pi) (2 * pi))"
  by (simp add: normalise_yaw_def two_pi_real real_arith_simps)

lemma folded_angle_real:
  "folded_angle real_arith a b = (if pi < \<bar>a - b\<bar> then 2 * pi - \<bar>a - b\<bar> else \<bar>a - b\<bar>)"
  by (simp add: folded_angle_def two_pi_real real_arith_simps Let_def)

lemma f_leq_real: "f_leq real_arith a b = (a \<le> b)"
  by (auto simp: f_leq_def real_arith_simps)

lemma angle_arith_real: "angle_arith real_arith"
proof -
  have a: "\<And>x r. 0 \<le> x \<Longrightarrow> fmod x (2 * pi) = r \<Longrightarrow> 0 \<le> r \<and> r < 2 * pi"
    using fmod_nonneg_range [of _ "2 * pi"] by auto
  show ?thesis
    unfolding angle_arith_def f_leq_real two_pi_real
    using a by (auto simp: real_arith_simps)
qed

lemma fmod_range:
  assumes "angle_arith fl"
    and "f_leq fl (f_zero fl) x"
    and "f_fmod fl x (two_pi fl) = Inr r"
  shows "f_leq fl (f_zero fl) r \<and> f_less fl r (two_pi fl)"
  using assms unfolding angle_arith_def by blast

lemma folded_angle_range:
  assumes "angle_arith fl"
    and "f_leq fl (f_zero fl) u" "f_less fl u (two_pi fl)"
    and "f_leq fl (f_zero fl) v" "f_less fl v (two_pi fl)"
  shows "f_leq fl (f_zero fl) (folded_angle fl u v) \<and> f_leq fl (folded_angle fl u v) (f_pi fl)"
proof -
  let ?d = "f_fabs fl (f_sub fl u v)"
  from assms(1) have
    c2: "\<And>u v. f_leq fl (f_zero fl) u \<Longrightarrow> f_less fl u (two_pi fl) \<Longrightarrow>
           f_leq fl (f_zero fl) v \<Longrightarrow> f_less fl v (two_pi fl) \<Longrightarrow>
           f_leq fl (f_zero fl) (f_fabs fl (f_sub fl u v)) \<and>
           f_less fl (f_fabs fl (f_sub fl u v)) (two_pi fl)"
    and c3: "\<And>a. f_less fl (f_pi fl) a \<Longrightarrow> f_less fl a (two_pi fl) \<Longrightarrow>
           f_leq fl (f_zero fl) (f_sub fl (two_pi fl) a) \<and> f_leq fl (f_sub fl (two_pi fl) a) (f_pi fl)"
    and c4: "\<And>a. f_leq fl (f_zero fl) a \<Longrightarrow> \<not> f_less fl (f_pi fl) a \<Longrightarrow> f_leq fl a (f_pi fl)"
    unfolding angle_arith_def by blast+
  from c2 [OF assms(2-5)] have d: "f_leq fl (f_zero fl) ?d" "f_less fl ?d (two_pi fl)"
    by blast+
  show ?thesis
  proof (cases "f_less fl (f_pi fl) ?d")
    case True
    then show ?thesis
      using c3 [OF True d(2)] by (simp add: folded_angle_def Let_def)
  next
    case False
    then show ?thesis
      using c4 [OF d(1) False] d(1) by (simp add: folded_angle_def Let_def)
  qed
qed

lemma find_closest_square_ahead:
  assumes "e = \<lparr>pt_x = 0.9, pt_y = 0.05, pt_z = 0\<rparr>"
  shows "find_closest real_arith e square_track = Inr (1, sqrt (0.1\<^sup>2 + 0.05\<^sup>2))"
proof -
  have d0: "distance real_arith e (position (ps_pose (wp_pose (waypoint_at 0 0)))) =
              Inr (sqrt (0.9\<^sup>2 + 0.05\<^sup>2))"
    using distance_real_near [of e "position (ps_pose (wp_pose (waypoint_at 0 0)))"]
    by (simp add: assms waypoint_at_def)
  have d1: "distance real_arith e (position (ps_pose (wp_pose (waypoint_at 1 0)))) =
              Inr (sqrt (0.1\<^sup>2 + 0.05\<^sup>2))"
    using distance_real_near [of e "position (ps_pose (wp_pose (waypoint_at 1 0)))"]
    by (simp add: assms waypoint_at_def)
  have d2: "distance real_arith e (position (ps_pose (wp_pose (waypoint_at 1 1)))) =
              Inr (sqrt (0.1\<^sup>2 + 0.95\<^sup>2))"
    using distance_real_near [of e "position (ps_pose (wp_pose (waypoint_at 1 1)))"]
    by (simp add: assms waypoint_at_def)
  have d3: "distance real_arith e (position (ps_pose (wp_pose (waypoint_at 0 1)))) =
              Inr (sqrt (0.9\<^sup>2 + 0.95\<^sup>2))"
    using distance_real_near [of e "position (ps_pose (wp_pose (waypoint_at 0 1)))"]
    by (simp add: assms waypoint_at_def)
  have m: "sqrt (0.9\<^sup>2 + 0.05\<^sup>2) < f_max real_arith"
    by (rule sqrt_less_float_max) (simp add: power2_eq_square)
  have c: "sqrt (0.1\<^sup>2 + 0.05\<^sup>2) < sqrt (0.9\<^sup>2 + 0.05\<^sup>2 :: real)"
    "\<not> sqrt (0.1\<^sup>2 + 0.95\<^sup>2) < sqrt (0.1\<^sup>2 + 0.05\<^sup>2 :: real)"
    "\<not> sqrt (0.9\<^sup>2 + 0.95\<^sup>2) < sqrt (0.1\<^sup>2 + 0.05\<^sup>2 :: real)"
    by (simp_all add: power2_eq_square)
  have s0: "closest_step real_arith e (Inr (0, f_max real_arith)) (0, waypoint_at 0 0) =
              Inr (0, sqrt (0.9\<^sup>2 + 0.05\<^sup>2))"
    unfolding closest_step_real [OF d0] using m by (simp only: if_True)
  have s1: "closest_step real_arith e (Inr (0, sqrt (0.9\<^sup>2 + 0.05\<^sup>2))) (1, waypoint_at 1 0) =
              Inr (1, sqrt (0.1\<^sup>2 + 0.05\<^sup>2))"
    unfolding closest_step_real [OF d1] using c(1) by (simp only: if_True)
  have s2: "closest_step real_arith e (Inr (1, sqrt (0.1\<^sup>2 + 0.05\<^sup>2))) (2, waypoint_at 1 1) =
              Inr (1, sqrt (0.1\<^sup>2 + 0.05\<^sup>2))"
    unfolding closest_step_real [OF d2] using c(2) by (simp only: if_False)
  have s3: "closest_step real_arith e (Inr (1, sqrt (0.1\<^sup>2 + 0.05\<^sup>2))) (3, waypoint_at 0 1) =
              Inr (1, sqrt (0.1\<^sup>2 + 0.05\<^sup>2))"
    unfolding closest_step_real [OF d3] using c(3) by (simp only: if_False)
  have en: "enumerate 0 square_track =
              [(0, waypoint_at 0 0), (1, waypoint_at 1 0), (2, waypoint_at 1 1), (3, waypoint_at 0 1)]"
    by (simp add: square_track_def enumerate_eq_zip)
  show ?thesis
    unfolding find_closest_def en by (simp only: foldl.simps s0 s1 s2 s3)
qed

lemma with_nan_simps:
  "f_zero (with_nan fl) = Some (f_zero fl)"
  "f_two (with_nan fl) = Some (f_two fl)"
  "f_pi (with_nan fl) = Some (f_pi fl)"
  "f_max (with_nan fl) = Some (f_max fl)"
  "f_add (with_nan fl) = lift2 (f_add fl)"
  "f_sub (with_nan fl) = lift2 (f_sub fl)"
  "f_mul (with_nan fl) = lift2 (f_mul fl)"
  "f_div (with_nan fl) = lift2 (f_div fl)"
  "f_sqr (with_nan fl) = lift_raising (f_sqr fl)"
  "f_sqrt (with_nan fl) = lift_raising (f_sqrt fl)"
  "f_less (with_nan fl) None b = False"
  "f_less (with_nan fl) a None = False"
  "f_less (with_nan fl) (Some x) (Some y) = f_less fl x y"
  "f_fabs (with_nan fl) = map_option (f_fabs fl)"
  "f_atan2 (with_nan fl) = lift2 (f_atan2 fl)"
  "f_fmod (with_nan fl) a (Some y) = lift_raising (\<lambda>x. f_fmod fl x y) a"
  by (simp_all add: with_nan_def split: option.splits)

lemma lift_simps:
  "lift2 f None b = None"
  "lift2 f a None = None"
  "lift2 f (Some x) (Some y) = Some (f x y)"
  "lift_raising g None = Inr None"
  "lift_raising g (Some x) = (case g x of Inl e \<Rightarrow> Inl e | Inr v \<Rightarrow> Inr (Some v))"
  by (simp_all add: lift2_def lift_raising_def split: option.splits)

text \<open>
  C2, as the code has it. Let the scan have returned the index \<open>nearest\<close> on a track
  with at least one waypoint, in an arithmetic with the properties of \<open>angle_arith\<close>.
  The bearing is \<^verbatim>\<open>fmod (atan2 (dy, dx) + 2 * pi, 2 * pi)\<close> for the differences \<open>dy\<close> and
  \<open>dx\<close> from the vehicle to the nearest waypoint, and the yaw of the quaternion is
  treated in the same way. When the two shifted angles are not below \<open>0\<close> and \<^verbatim>\<open>fmod\<close>
  returns, as it is for angles that are numbers, bearing and yaw lie in \<open>[0, 2\<pi>)\<close>,
  their absolute difference, replaced by \<open>2\<pi>\<close> minus itself when it exceeds \<open>\<pi>\<close>, lies
  in \<open>[0, \<pi>]\<close>, and the window published starts at \<open>(nearest + 1) mod N\<close> when that
  angle, as computed, exceeds \<^verbatim>\<open>pi / 2\<close>, as computed, and at \<open>nearest\<close> otherwise.
\<close>

theorem head_selection:
  assumes "waypoints s \<noteq> []"
    and "length (lane_waypoints (final_waypoints s)) = LOOKAHEAD_WPS"
    and "angle_arith fl"
    and "find_closest fl (position (ps_pose (ego_pose s))) (waypoints s) = Inr (nearest, dn)"
    and "f_leq fl (f_zero fl)
           (f_add fl
              (f_atan2 fl
                 (f_sub fl (pt_y (position (ps_pose (wp_pose (waypoints s ! nearest)))))
                           (pt_y (position (ps_pose (ego_pose s)))))
                 (f_sub fl (pt_x (position (ps_pose (wp_pose (waypoints s ! nearest)))))
                           (pt_x (position (ps_pose (ego_pose s))))))
              (f_mul fl (f_two fl) (f_pi fl)))"
    and "f_fmod fl
           (f_add fl
              (f_atan2 fl
                 (f_sub fl (pt_y (position (ps_pose (wp_pose (waypoints s ! nearest)))))
                           (pt_y (position (ps_pose (ego_pose s)))))
                 (f_sub fl (pt_x (position (ps_pose (wp_pose (waypoints s ! nearest)))))
                           (pt_x (position (ps_pose (ego_pose s))))))
              (f_mul fl (f_two fl) (f_pi fl)))
           (f_mul fl (f_two fl) (f_pi fl)) = Inr bearing"
    and "f_leq fl (f_zero fl)
           (f_add fl (yaw_of (orientation (ps_pose (ego_pose s)))) (f_mul fl (f_two fl) (f_pi fl)))"
    and "f_fmod fl
           (f_add fl (yaw_of (orientation (ps_pose (ego_pose s)))) (f_mul fl (f_two fl) (f_pi fl)))
           (f_mul fl (f_two fl) (f_pi fl)) = Inr yaw"
  shows
    "let diff = f_fabs fl (f_sub fl yaw bearing);
         angle = (if f_less fl (f_pi fl) diff
                  then f_sub fl (f_mul fl (f_two fl) (f_pi fl)) diff else diff);
         head = (if f_less fl (f_div fl (f_pi fl) (f_two fl)) angle
                 then (nearest + 1) mod length (waypoints s) else nearest)
     in f_leq fl (f_zero fl) bearing \<and> f_less fl bearing (f_mul fl (f_two fl) (f_pi fl)) \<and>
        f_leq fl (f_zero fl) yaw \<and> f_less fl yaw (f_mul fl (f_two fl) (f_pi fl)) \<and>
        f_leq fl (f_zero fl) angle \<and> f_leq fl angle (f_pi fl) \<and>
        head < length (waypoints s) \<and>
        fst (publish_waypoints fl yaw_of s) = None \<and>
        published (snd (publish_waypoints fl yaw_of s)) =
          published s @
            [\<lparr>lane_header = (lane_header (final_waypoints s))\<lparr>stamp := stamp (ps_header (ego_pose s))\<rparr>,
              lane_waypoints =
                map (\<lambda>i. waypoints s ! ((head + i) mod length (waypoints s))) [0..<200]\<rparr>]"
proof -
  let ?ego = "position (ps_pose (ego_pose s))"
  let ?target = "position (ps_pose (wp_pose (waypoints s ! nearest)))"
  let ?angle = "folded_angle fl yaw bearing"
  let ?head = "select_first fl nearest (length (waypoints s)) ?angle"
  have hd: "heading_to fl ?ego ?target = Inr bearing"
    using assms(6) by (simp add: heading_to_def two_pi_def Let_def)
  have ny: "normalise_yaw fl (yaw_of (orientation (ps_pose (ego_pose s)))) = Inr yaw"
    using assms(8) by (simp add: normalise_yaw_def two_pi_def)
  have b: "f_leq fl (f_zero fl) bearing \<and> f_less fl bearing (two_pi fl)"
    using assms(3) assms(5,6) [folded two_pi_def] by (rule fmod_range)
  have y: "f_leq fl (f_zero fl) yaw \<and> f_less fl yaw (two_pi fl)"
    using assms(3) assms(7,8) [folded two_pi_def] by (rule fmod_range)
  have a: "f_leq fl (f_zero fl) ?angle \<and> f_leq fl ?angle (f_pi fl)"
    using assms(3) y b by (intro folded_angle_range) simp_all
  have first: "first_id_of fl yaw_of (ego_pose s) (waypoints s) = Inr ?head"
    by (simp add: first_id_of_def assms(4) hd ny and_then_simps)
  have h: "?head < length (waypoints s)"
    using assms(1) first by (rule first_id_of_in_range)
  from publish_waypoints_ok [OF assms(1,2) first] obtain lines
    where ok: "publish_waypoints fl yaw_of s =
        (None, s\<lparr>final_waypoints := window_msg s ?head, log := log s @ lines,
                 published := published s @ [window_msg s ?head]\<rparr>)"
    by blast
  have p1: "fst (publish_waypoints fl yaw_of s) = None"
    unfolding ok by (rule fst_conv)
  have p2: "published (snd (publish_waypoints fl yaw_of s)) = published s @ [window_msg s ?head]"
    unfolding ok by simp
  note facts = a b y h p1 p2
  show ?thesis
    using facts [unfolded folded_angle_def select_first_def behind_def two_pi_def Let_def
        window_msg_def window_def LOOKAHEAD_WPS_def]
    unfolding Let_def by blast
qed

theorem head_selection_witness:
  "waypoints (square_node_at (pose_at 0.9 0.05)) \<noteq> [] \<and>
   length (lane_waypoints (final_waypoints (square_node_at (pose_at 0.9 0.05)))) = LOOKAHEAD_WPS \<and>
   angle_arith real_arith \<and>
   find_closest real_arith (position (ps_pose (ego_pose (square_node_at (pose_at 0.9 0.05)))))
     (waypoints (square_node_at (pose_at 0.9 0.05))) = Inr (1, sqrt (0.1\<^sup>2 + 0.05\<^sup>2)) \<and>
   fst (publish_waypoints real_arith euler_from_quaternion_yaw (square_node_at (pose_at 0.9 0.05))) =
     None"
proof -
  let ?s = "square_node_at (pose_at 0.9 0.05)"
  let ?b = "atan2 (pt_y (position (ps_pose (wp_pose (waypoints ?s ! 1)))) -
                   pt_y (position (ps_pose (ego_pose ?s))))
                  (pt_x (position (ps_pose (wp_pose (waypoints ?s ! 1)))) -
                   pt_x (position (ps_pose (ego_pose ?s)))) + 2 * pi"
  let ?y = "euler_from_quaternion_yaw (orientation (ps_pose (ego_pose ?s))) + 2 * pi"
  have h1: "waypoints ?s \<noteq> []"
    by (simp add: square_node_at_def square_node_simps square_track_def)
  have h2: "length (lane_waypoints (final_waypoints ?s)) = LOOKAHEAD_WPS"
    by (simp add: square_node_at_def square_node_simps)
  have h3: "angle_arith real_arith"
    by (rule angle_arith_real)
  have h4: "find_closest real_arith (position (ps_pose (ego_pose ?s))) (waypoints ?s) =
              Inr (1, sqrt (0.1\<^sup>2 + 0.05\<^sup>2))"
    using find_closest_square_ahead [of "position (ps_pose (pose_at 0.9 0.05))"]
    by (simp add: square_node_at_def square_node_simps pose_at_simps)
  have p: "0 < 2 * pi" by simp
  have h5: "f_leq real_arith (f_zero real_arith)
              (f_add real_arith
                 (f_atan2 real_arith
                    (f_sub real_arith (pt_y (position (ps_pose (wp_pose (waypoints ?s ! 1)))))
                                      (pt_y (position (ps_pose (ego_pose ?s)))))
                    (f_sub real_arith (pt_x (position (ps_pose (wp_pose (waypoints ?s ! 1)))))
                                      (pt_x (position (ps_pose (ego_pose ?s))))))
                 (f_mul real_arith (f_two real_arith) (f_pi real_arith)))"
    unfolding f_leq_real real_arith_simps
    using atan2_range [of "pt_y (position (ps_pose (wp_pose (waypoints ?s ! 1)))) -
                           pt_y (position (ps_pose (ego_pose ?s)))"
                          "pt_x (position (ps_pose (wp_pose (waypoints ?s ! 1)))) -
                           pt_x (position (ps_pose (ego_pose ?s)))"] pi_gt_zero
    by linarith
  have h6: "f_fmod real_arith
              (f_add real_arith
                 (f_atan2 real_arith
                    (f_sub real_arith (pt_y (position (ps_pose (wp_pose (waypoints ?s ! 1)))))
                                      (pt_y (position (ps_pose (ego_pose ?s)))))
                    (f_sub real_arith (pt_x (position (ps_pose (wp_pose (waypoints ?s ! 1)))))
                                      (pt_x (position (ps_pose (ego_pose ?s))))))
                 (f_mul real_arith (f_two real_arith) (f_pi real_arith)))
              (f_mul real_arith (f_two real_arith) (f_pi real_arith)) = Inr (fmod ?b (2 * pi))"
    unfolding real_arith_simps using p by simp
  have h7: "f_leq real_arith (f_zero real_arith)
              (f_add real_arith (euler_from_quaternion_yaw (orientation (ps_pose (ego_pose ?s))))
                 (f_mul real_arith (f_two real_arith) (f_pi real_arith)))"
    unfolding f_leq_real real_arith_simps
    using euler_yaw_range [of "orientation (ps_pose (ego_pose ?s))"] pi_gt_zero
    by linarith
  have h8: "f_fmod real_arith
              (f_add real_arith (euler_from_quaternion_yaw (orientation (ps_pose (ego_pose ?s))))
                 (f_mul real_arith (f_two real_arith) (f_pi real_arith)))
              (f_mul real_arith (f_two real_arith) (f_pi real_arith)) = Inr (fmod ?y (2 * pi))"
    unfolding real_arith_simps using p by simp
  from head_selection [where s = "?s" and fl = real_arith and yaw_of = euler_from_quaternion_yaw,
      OF h1 h2 h3 h4 h5 h6 h7 h8]
  have "fst (publish_waypoints real_arith euler_from_quaternion_yaw ?s) = None"
    unfolding Let_def by (elim conjE)
  with h1 h2 h3 h4 show ?thesis by (intro conjI)
qed

text \<open>
  Bearing and yaw are not brought into \<open>[0, 2\<pi>)\<close> for every position. When the \<open>x\<close> of
  the position is NaN, every distance is NaN and no comparison of the scan holds, so
  the scan returns index \<open>0\<close> with \<^verbatim>\<open>sys.float_info.max\<close>; the bearing to that waypoint is
  NaN, which is neither at least \<open>0\<close> nor below \<open>2\<pi>\<close>, and the folded difference to a
  yaw of \<open>0\<close> is NaN as well, which is not at most \<open>\<pi>\<close>.
\<close>

theorem nan_position_counterexample:
  "find_closest (with_nan real_arith) nan_position nan_track =
     Inr (0, f_max (with_nan real_arith)) \<and>
   heading_to (with_nan real_arith) nan_position
     (position (ps_pose (wp_pose (nan_track ! 0)))) = Inr None \<and>
   \<not> f_leq (with_nan real_arith) (f_zero (with_nan real_arith)) None \<and>
   \<not> f_less (with_nan real_arith) None (two_pi (with_nan real_arith)) \<and>
   folded_angle (with_nan real_arith) (Some 0) None = None \<and>
   \<not> f_leq (with_nan real_arith) None (f_pi (with_nan real_arith))"
proof -
  have d: "distance (with_nan real_arith) nan_position
             (position (ps_pose (wp_pose (nan_track ! 0)))) = Inr None"
    by (simp add: distance_def nan_position_def nan_track_def with_nan_simps lift_simps
          and_then_simps real_arith_simps)
  have a: "find_closest (with_nan real_arith) nan_position nan_track =
             Inr (0, f_max (with_nan real_arith))"
    using d by (simp add: find_closest_def closest_step_def nan_track_def and_then_simps
          with_nan_simps)
  have b: "heading_to (with_nan real_arith) nan_position
             (position (ps_pose (wp_pose (nan_track ! 0)))) = Inr None"
    by (simp add: heading_to_def two_pi_def nan_position_def nan_track_def with_nan_simps
          lift_simps Let_def)
  have c: "\<not> f_leq (with_nan real_arith) (f_zero (with_nan real_arith)) None"
    "\<not> f_less (with_nan real_arith) None (two_pi (with_nan real_arith))"
    "\<not> f_leq (with_nan real_arith) None (f_pi (with_nan real_arith))"
    by (simp_all add: f_leq_def with_nan_simps)
  have e: "folded_angle (with_nan real_arith) (Some 0) None = None"
    by (simp add: folded_angle_def with_nan_simps lift_simps Let_def)
  from a b c e show ?thesis by (intro conjI)
qed

subsection \<open>The pose callback\<close>

lemma deque_append_eq:
  "deque_append q v = drop (length q + 1 - 50) (q @ [v])"
  by (simp add: deque_append_def Let_def POSE_QUEUE_SIZE_def)

lemma pose_cb_raises:
  "distance fl (position (ps_pose p)) (position (ps_pose (ego_pose s))) = Inl e \<Longrightarrow>
   pose_cb fl yaw_of p s = (Some e, s)"
  by (simp add: pose_cb_def)

lemma pose_cb_rejects:
  "distance fl (position (ps_pose p)) (position (ps_pose (ego_pose s))) = Inr d \<Longrightarrow>
   f_less fl d (MIN_UPDATE_DIST fl) \<Longrightarrow>
   pose_cb fl yaw_of p s = (None, s\<lparr>log := log s @ [LogEgoPose p d]\<rparr>)"
  by (simp add: pose_cb_def Let_def VERBOSE_def)

lemma pose_cb_accepts:
  "distance fl (position (ps_pose p)) (position (ps_pose (ego_pose s))) = Inr d \<Longrightarrow>
   \<not> f_less fl d (MIN_UPDATE_DIST fl) \<Longrightarrow>
   pose_cb fl yaw_of p s =
     publish_waypoints fl yaw_of
       (s\<lparr>log := log s @ [LogEgoPose p d], ego_pose := p,
          ego_pose_queue := drop (length (ego_pose_queue s) + 1 - 50) (ego_pose_queue s @ [p])\<rparr>)"
  by (simp add: pose_cb_def Let_def VERBOSE_def deque_append_eq)

text \<open>
  The first index for a pose at \<open>(1.05, 0)\<close> with yaw \<open>0\<close> on a track with the
  positions of the square track.
\<close>

lemma scenario_first_id:
  assumes "map (\<lambda>w. position (ps_pose (wp_pose w))) wps =
             [\<lparr>pt_x = 0, pt_y = 0, pt_z = 0\<rparr>, \<lparr>pt_x = 1, pt_y = 0, pt_z = 0\<rparr>,
              \<lparr>pt_x = 1, pt_y = 1, pt_z = 0\<rparr>, \<lparr>pt_x = 0, pt_y = 1, pt_z = 0\<rparr>]"
    and "position (ps_pose p) = \<lparr>pt_x = 1.05, pt_y = 0, pt_z = 0\<rparr>"
    and "yaw_of (orientation (ps_pose p)) = 0"
  shows "find_closest real_arith (position (ps_pose p)) wps = Inr (1, 0.05)"
    and "heading_to real_arith (position (ps_pose p)) (position (ps_pose (wp_pose (wps ! 1)))) = Inr pi"
    and "normalise_yaw real_arith (yaw_of (orientation (ps_pose p))) = Inr 0"
    and "folded_angle real_arith 0 pi = pi"
    and "behind real_arith pi"
    and "select_first real_arith 1 (length wps) pi = 2"
    and "first_id_of real_arith yaw_of p wps = Inr 2"
proof -
  let ?e = "position (ps_pose p)"
  from assms(1) obtain w0 w1 w2 w3 where wps: "wps = [w0, w1, w2, w3]"
    and p0: "position (ps_pose (wp_pose w0)) = \<lparr>pt_x = 0, pt_y = 0, pt_z = 0\<rparr>"
    and p1: "position (ps_pose (wp_pose w1)) = \<lparr>pt_x = 1, pt_y = 0, pt_z = 0\<rparr>"
    and p2: "position (ps_pose (wp_pose w2)) = \<lparr>pt_x = 1, pt_y = 1, pt_z = 0\<rparr>"
    and p3: "position (ps_pose (wp_pose w3)) = \<lparr>pt_x = 0, pt_y = 1, pt_z = 0\<rparr>"
    by (auto simp: map_eq_Cons_conv)
  have len: "length wps = 4" by (simp add: wps)
  have d0: "distance real_arith ?e (position (ps_pose (wp_pose w0))) = Inr 1.05"
    using distance_real_near [of ?e "position (ps_pose (wp_pose w0))"]
    by (simp add: assms(2) p0)
  have d1: "distance real_arith ?e (position (ps_pose (wp_pose w1))) = Inr 0.05"
    using distance_real_near [of ?e "position (ps_pose (wp_pose w1))"]
    by (simp add: assms(2) p1)
  have d2: "distance real_arith ?e (position (ps_pose (wp_pose w2))) = Inr (sqrt (0.05\<^sup>2 + 1))"
    using distance_real_near [of ?e "position (ps_pose (wp_pose w2))"]
    by (simp add: assms(2) p2)
  have d3: "distance real_arith ?e (position (ps_pose (wp_pose w3))) = Inr (sqrt (1.05\<^sup>2 + 1))"
    using distance_real_near [of ?e "position (ps_pose (wp_pose w3))"]
    by (simp add: assms(2) p3)
  have c2: "\<not> sqrt (0.05\<^sup>2 + 1) < (0.05::real)"
  proof -
    have "1 \<le> sqrt (0.05\<^sup>2 + 1 :: real)" by (rule real_sqrt_ge_one) simp
    moreover have "(0.05::real) < 1" by simp
    ultimately show ?thesis by (simp only: not_less)
  qed
  have c3: "\<not> sqrt (1.05\<^sup>2 + 1) < (0.05::real)"
  proof -
    have "1 \<le> sqrt (1.05\<^sup>2 + 1 :: real)" by (rule real_sqrt_ge_one) simp
    moreover have "(0.05::real) < 1" by simp
    ultimately show ?thesis by (simp only: not_less)
  qed
  have m: "(1.05::real) < f_max real_arith"
    using float_max_gt by simp
  show closest: "find_closest real_arith ?e wps = Inr (1, 0.05)"
    unfolding wps find_closest_def
    using m c2 c3
    by (simp add: enumerate_eq_zip closest_step_real [OF d0] closest_step_real [OF d1]
          closest_step_real [OF d2] closest_step_real [OF d3])
  have at: "atan2 (0 - 0) (1 - 1.05) = pi"
    by (simp add: atan2_neg_x_axis)
  show heading: "heading_to real_arith ?e (position (ps_pose (wp_pose (wps ! 1)))) = Inr pi"
    using at by (simp add: heading_to_real wps p1 assms(2) fmod_3pi)
  show yaw: "normalise_yaw real_arith (yaw_of (orientation (ps_pose p))) = Inr 0"
    using fmod_2pi by (simp add: normalise_yaw_real assms(3))
  show angle: "folded_angle real_arith 0 pi = pi"
    by (simp add: folded_angle_real)
  show half: "behind real_arith pi"
    using pi_gt_zero by (simp add: behind_def real_arith_simps)
  show sel: "select_first real_arith 1 (length wps) pi = 2"
    using half by (simp add: select_first_def len)
  show "first_id_of real_arith yaw_of p wps = Inr 2"
    using closest heading yaw angle sel
    by (simp add: first_id_of_def and_then_simps)
qed

text \<open>
  C4, as the code has it. The callback first computes the distance from the stored pose
  to the new one. When that raises, the callback raises with the state as it was. When
  the computed distance is below \<^verbatim>\<open>MIN_UPDATE_DIST\<close>, as computed, the pose is dropped: the
  stored pose, the history and the published messages stay, and the state differs only
  by the line the callback logs before it compares. Otherwise the pose becomes the
  stored pose, and the history becomes the old history with the pose appended, cut to
  its last \<^verbatim>\<open>POSE_QUEUE_SIZE\<close> entries; \<open>publish_waypoints\<close> runs once on that state and
  publishes exactly one window when it returns, none when it raises, and it returns
  when a track is loaded and its first index is computed.
\<close>

theorem pose_debounce:
  assumes "length (lane_waypoints (final_waypoints s)) = LOOKAHEAD_WPS"
  shows
    "(\<forall>e. distance fl (position (ps_pose p)) (position (ps_pose (ego_pose s))) = Inl e \<longrightarrow>
        pose_cb fl yaw_of p s = (Some e, s)) \<and>
     (\<forall>d. distance fl (position (ps_pose p)) (position (ps_pose (ego_pose s))) = Inr d \<longrightarrow>
        (f_less fl d (MIN_UPDATE_DIST fl) \<longrightarrow>
           pose_cb fl yaw_of p s = (None, s\<lparr>log := log s @ [LogEgoPose p d]\<rparr>) \<and>
           ego_pose (snd (pose_cb fl yaw_of p s)) = ego_pose s \<and>
           ego_pose_queue (snd (pose_cb fl yaw_of p s)) = ego_pose_queue s \<and>
           published (snd (pose_cb fl yaw_of p s)) = published s) \<and>
        (\<not> f_less fl d (MIN_UPDATE_DIST fl) \<longrightarrow>
           pose_cb fl yaw_of p s =
             publish_waypoints fl yaw_of
               (s\<lparr>log := log s @ [LogEgoPose p d], ego_pose := p,
                  ego_pose_queue :=
                    drop (length (ego_pose_queue s) + 1 - 50) (ego_pose_queue s @ [p])\<rparr>) \<and>
           ego_pose (snd (pose_cb fl yaw_of p s)) = p \<and>
           ego_pose_queue (snd (pose_cb fl yaw_of p s)) =
             drop (length (ego_pose_queue s) + 1 - 50) (ego_pose_queue s @ [p]) \<and>
           length (ego_pose_queue (snd (pose_cb fl yaw_of p s))) \<le> POSE_QUEUE_SIZE \<and>
           (fst (pose_cb fl yaw_of p s) = None \<longrightarrow>
              (\<exists>msg. published (snd (pose_cb fl yaw_of p s)) = published s @ [msg])) \<and>
           (fst (pose_cb fl yaw_of p s) \<noteq> None \<longrightarrow>
              published (snd (pose_cb fl yaw_of p s)) = published s) \<and>
           (\<forall>k. waypoints s \<noteq> [] \<longrightarrow> first_id_of fl yaw_of p (waypoints s) = Inr k \<longrightarrow>
              fst (pose_cb fl yaw_of p s) = None \<and>
              published (snd (pose_cb fl yaw_of p s)) =
                published s @
                  [\<lparr>lane_header = (lane_header (final_waypoints s))\<lparr>stamp := stamp (ps_header p)\<rparr>,
                    lane_waypoints = window (waypoints s) k LOOKAHEAD_WPS\<rparr>])))"
proof (intro conjI allI impI)
  fix e
  assume "distance fl (position (ps_pose p)) (position (ps_pose (ego_pose s))) = Inl e"
  then show "pose_cb fl yaw_of p s = (Some e, s)"
    by (rule pose_cb_raises)
next
  fix d
  assume d: "distance fl (position (ps_pose p)) (position (ps_pose (ego_pose s))) = Inr d"
    and near: "f_less fl d (MIN_UPDATE_DIST fl)"
  from d near show rej: "pose_cb fl yaw_of p s = (None, s\<lparr>log := log s @ [LogEgoPose p d]\<rparr>)"
    by (rule pose_cb_rejects)
  show "ego_pose (snd (pose_cb fl yaw_of p s)) = ego_pose s"
    and "ego_pose_queue (snd (pose_cb fl yaw_of p s)) = ego_pose_queue s"
    and "published (snd (pose_cb fl yaw_of p s)) = published s"
    by (simp_all add: rej)
next
  fix d
  let ?q = "drop (length (ego_pose_queue s) + 1 - 50) (ego_pose_queue s @ [p])"
  let ?s' = "s\<lparr>log := log s @ [LogEgoPose p d], ego_pose := p, ego_pose_queue := ?q\<rparr>"
  assume d: "distance fl (position (ps_pose p)) (position (ps_pose (ego_pose s))) = Inr d"
    and far: "\<not> f_less fl d (MIN_UPDATE_DIST fl)"
  from d far show acc: "pose_cb fl yaw_of p s = publish_waypoints fl yaw_of ?s'"
    by (rule pose_cb_accepts)
  show "ego_pose (snd (pose_cb fl yaw_of p s)) = p"
    and q: "ego_pose_queue (snd (pose_cb fl yaw_of p s)) = ?q"
    using publish_waypoints_frame [of fl yaw_of ?s'] by (simp_all add: acc)
  show "length (ego_pose_queue (snd (pose_cb fl yaw_of p s))) \<le> POSE_QUEUE_SIZE"
    by (simp add: q POSE_QUEUE_SIZE_def)
  {
    assume "fst (pose_cb fl yaw_of p s) = None"
    then show "\<exists>msg. published (snd (pose_cb fl yaw_of p s)) = published s @ [msg]"
      using publish_waypoints_published [of fl yaw_of ?s'] by (simp add: acc)
  }
  {
    assume "fst (pose_cb fl yaw_of p s) \<noteq> None"
    then show "published (snd (pose_cb fl yaw_of p s)) = published s"
      using publish_waypoints_published [of fl yaw_of ?s'] by (simp add: acc)
  }
  {
    fix k
    assume track: "waypoints s \<noteq> []"
      and k: "first_id_of fl yaw_of p (waypoints s) = Inr k"
    have h1: "waypoints ?s' \<noteq> []" using track by simp
    have h2: "length (lane_waypoints (final_waypoints ?s')) = LOOKAHEAD_WPS"
      using assms by simp
    have h3: "first_id_of fl yaw_of (ego_pose ?s') (waypoints ?s') = Inr k"
      using k by simp
    from publish_waypoints_ok [where s = ?s' and fl = fl and yaw_of = yaw_of, OF h1 h2 h3]
    obtain lines where ok: "publish_waypoints fl yaw_of ?s' =
        (None, ?s'\<lparr>final_waypoints := window_msg ?s' k, log := log ?s' @ lines,
                   published := published ?s' @ [window_msg ?s' k]\<rparr>)"
      by blast
    show "fst (pose_cb fl yaw_of p s) = None"
      unfolding acc ok by (rule fst_conv)
    show "published (snd (pose_cb fl yaw_of p s)) =
            published s @
              [\<lparr>lane_header = (lane_header (final_waypoints s))\<lparr>stamp := stamp (ps_header p)\<rparr>,
                lane_waypoints = window (waypoints s) k LOOKAHEAD_WPS\<rparr>]"
      unfolding acc ok by (simp add: window_msg_def)
  }
qed

theorem pose_debounce_witness:
  "length (lane_waypoints (final_waypoints square_node)) = LOOKAHEAD_WPS \<and>
   distance real_arith (position (ps_pose (pose_at 0.005 0)))
     (position (ps_pose (ego_pose square_node))) = Inr 0.005 \<and>
   f_less real_arith 0.005 (MIN_UPDATE_DIST real_arith) \<and>
   published (snd (pose_cb real_arith euler_from_quaternion_yaw (pose_at 0.005 0) square_node)) =
     published square_node \<and>
   ego_pose (snd (pose_cb real_arith euler_from_quaternion_yaw (pose_at 0.005 0) square_node)) =
     ego_pose square_node \<and>
   ego_pose_queue (snd (pose_cb real_arith euler_from_quaternion_yaw (pose_at 0.005 0) square_node)) =
     ego_pose_queue square_node \<and>
   distance real_arith (position (ps_pose (pose_at 1.05 0)))
     (position (ps_pose (ego_pose square_node))) = Inr 1.05 \<and>
   \<not> f_less real_arith 1.05 (MIN_UPDATE_DIST real_arith) \<and>
   waypoints square_node \<noteq> [] \<and>
   first_id_of real_arith euler_from_quaternion_yaw (pose_at 1.05 0) (waypoints square_node) = Inr 2 \<and>
   ego_pose (snd (pose_cb real_arith euler_from_quaternion_yaw (pose_at 1.05 0) square_node)) =
     pose_at 1.05 0 \<and>
   ego_pose_queue (snd (pose_cb real_arith euler_from_quaternion_yaw (pose_at 1.05 0) square_node)) =
     [pose_at 1.05 0] \<and>
   fst (pose_cb real_arith euler_from_quaternion_yaw (pose_at 1.05 0) square_node) = None \<and>
   published (snd (pose_cb real_arith euler_from_quaternion_yaw (pose_at 1.05 0) square_node)) =
     [\<lparr>lane_header = (lane_header (final_waypoints square_node))\<lparr>stamp := (1, 0)\<rparr>,
       lane_waypoints = window square_track 2 LOOKAHEAD_WPS\<rparr>]"
proof -
  let ?near = "pose_at 0.005 0"
  let ?far = "pose_at 1.05 0"
  let ?cb = "pose_cb real_arith euler_from_quaternion_yaw"
  have inv: "length (lane_waypoints (final_waypoints square_node)) = LOOKAHEAD_WPS"
    by (simp add: square_node_simps)
  have dn: "distance real_arith (position (ps_pose ?near))
              (position (ps_pose (ego_pose square_node))) = Inr 0.005"
    by (rule distance_square_node) simp_all
  have near: "f_less real_arith 0.005 (MIN_UPDATE_DIST real_arith)"
    by (simp add: MIN_UPDATE_DIST_def real_arith_simps)
  have df: "distance real_arith (position (ps_pose ?far))
              (position (ps_pose (ego_pose square_node))) = Inr 1.05"
    by (rule distance_square_node) simp_all
  have far: "\<not> f_less real_arith 1.05 (MIN_UPDATE_DIST real_arith)"
    by (simp add: MIN_UPDATE_DIST_def real_arith_simps)
  have track: "waypoints square_node \<noteq> []"
    by (simp add: square_node_simps square_track_def)
  have first: "first_id_of real_arith euler_from_quaternion_yaw ?far (waypoints square_node) = Inr 2"
    by (rule scenario_first_id(7) [where yaw_of = euler_from_quaternion_yaw])
       (simp_all add: square_node_simps square_track_positions pose_at_simps euler_yaw_identity)
  have q: "drop (length (ego_pose_queue square_node) + 1 - 50) (ego_pose_queue square_node @ [?far]) =
             [?far]"
    by (simp add: square_node_simps)
  have st: "stamp (ps_header ?far) = (1, 0)" "waypoints square_node = square_track"
    "published square_node @ [m] = [m]" for m :: "real lane"
    by (simp_all add: pose_at_simps square_node_simps)
  note t = pose_debounce [where s = square_node and fl = real_arith
      and yaw_of = euler_from_quaternion_yaw, OF inv]
  note n0 = t [of ?near, THEN conjunct2, THEN spec, of "0.005", THEN mp, OF dn]
  note n1 = n0 [THEN conjunct1, THEN mp, OF near]
  have a: "published (snd (?cb ?near square_node)) = published square_node \<and>
           ego_pose (snd (?cb ?near square_node)) = ego_pose square_node \<and>
           ego_pose_queue (snd (?cb ?near square_node)) = ego_pose_queue square_node"
    using n1 by blast
  note f0 = t [of ?far, THEN conjunct2, THEN spec, of "1.05", THEN mp, OF df]
  note f1 = f0 [THEN conjunct2, THEN mp, OF far]
  note f2 = f1 [THEN conjunct2, THEN conjunct2, THEN conjunct2, THEN conjunct2, THEN conjunct2,
      THEN conjunct2, THEN spec, of 2, THEN mp, OF track, THEN mp, OF first]
  have b: "ego_pose (snd (?cb ?far square_node)) = ?far \<and>
           ego_pose_queue (snd (?cb ?far square_node)) =
             drop (length (ego_pose_queue square_node) + 1 - 50) (ego_pose_queue square_node @ [?far]) \<and>
           fst (?cb ?far square_node) = None \<and>
           published (snd (?cb ?far square_node)) =
             published square_node @
               [\<lparr>lane_header = (lane_header (final_waypoints square_node))\<lparr>stamp := stamp (ps_header ?far)\<rparr>,
                 lane_waypoints = window (waypoints square_node) 2 LOOKAHEAD_WPS\<rparr>]"
    using f1 f2 by blast
  from inv dn near a df far track first b show ?thesis
    unfolding q st by blast
qed

lemma sqr_far: "f_sqr real_arith (2 ^ 700 - 0) = Inl OverflowError"
  by (rule sqr_real_overflow) simp

text \<open>
  A pose at a distance of at least \<^verbatim>\<open>MIN_UPDATE_DIST\<close> is not always stored. With the
  stored pose at the origin, a pose at \<open>x = 2\<^sup>7\<^sup>0\<^sup>0\<close> makes \<^verbatim>\<open>x ** 2\<close> raise \<^verbatim>\<open>OverflowError\<close>
  in \<^verbatim>\<open>distance\<close>; the callback ends there, and the pose is neither stored nor appended
  to the history, and nothing is published.
\<close>

theorem far_pose_counterexample:
  "f_less real_arith (MIN_UPDATE_DIST real_arith) (2 ^ 700) \<and>
   pose_cb real_arith euler_from_quaternion_yaw (pose_at (2 ^ 700) 0) square_node =
     (Some OverflowError, square_node) \<and>
   ego_pose square_node = PoseStamped_new real_arith \<and>
   ego_pose_queue square_node = [] \<and>
   published square_node = []"
proof -
  have "distance real_arith (position (ps_pose (pose_at (2 ^ 700) 0)))
          (position (ps_pose (ego_pose square_node))) = Inl OverflowError"
    using sqr_far
    by (simp add: distance_def pose_at_simps square_node_simps PoseStamped_new_def Point_new_def
          real_arith_simps(1,8) and_then_simps)
  then have "pose_cb real_arith euler_from_quaternion_yaw (pose_at (2 ^ 700) 0) square_node =
               (Some OverflowError, square_node)"
    by (rule pose_cb_raises)
  moreover have "f_less real_arith (MIN_UPDATE_DIST real_arith) (2 ^ 700)"
  proof -
    have "(1 / 100 :: real) < 1" by simp
    also have "(1::real) \<le> 2 ^ 700" by (rule one_le_power) simp
    finally show ?thesis by (simp only: MIN_UPDATE_DIST_def real_arith_simps)
  qed
  ultimately show ?thesis
    by (simp only: square_node_simps simp_thms)
qed

text \<open>
  C5. With an empty track, \<open>publish_waypoints\<close> fails at its first assertion and
  changes nothing; an accepted pose then ends in that failure, and for no pose do the
  lane or the published messages change.
\<close>

theorem empty_track_fails:
  assumes "waypoints s = []"
  shows "publish_waypoints fl yaw_of s = (Some (AssertionError TrackWaypointsNotSet), s) \<and>
         (\<forall>d. distance fl (position (ps_pose p)) (position (ps_pose (ego_pose s))) = Inr d \<longrightarrow>
              \<not> f_less fl d (MIN_UPDATE_DIST fl) \<longrightarrow>
              fst (pose_cb fl yaw_of p s) = Some (AssertionError TrackWaypointsNotSet)) \<and>
         published (snd (pose_cb fl yaw_of p s)) = published s \<and>
         final_waypoints (snd (pose_cb fl yaw_of p s)) = final_waypoints s"
  using assms
  by (simp add: pose_cb_def publish_waypoints_def Let_def VERBOSE_def split: sum.splits)

theorem empty_track_fails_witness:
  "waypoints (init real_arith 0) = [] \<and>
   distance real_arith (position (ps_pose (pose_at 1.05 0)))
     (position (ps_pose (ego_pose (init real_arith 0)))) = Inr 1.05 \<and>
   \<not> f_less real_arith 1.05 (MIN_UPDATE_DIST real_arith) \<and>
   fst (pose_cb real_arith euler_from_quaternion_yaw (pose_at 1.05 0) (init real_arith 0)) =
     Some (AssertionError TrackWaypointsNotSet) \<and>
   published (snd (pose_cb real_arith euler_from_quaternion_yaw (pose_at 1.05 0) (init real_arith 0))) = []"
proof -
  have h1: "waypoints (init real_arith 0) = []" by (simp add: init_def)
  have h2: "distance real_arith (position (ps_pose (pose_at 1.05 0)))
              (position (ps_pose (ego_pose (init real_arith 0)))) = Inr 1.05"
    using distance_pose_at_origin [of "1.05"] by (simp add: init_def)
  have h3: "\<not> f_less real_arith 1.05 (MIN_UPDATE_DIST real_arith)"
    by (simp add: MIN_UPDATE_DIST_def real_arith_simps)
  have i: "published (init real_arith 0) = []" by (simp add: init_def)
  note t = empty_track_fails [where fl = real_arith and s = "init real_arith 0"
      and yaw_of = euler_from_quaternion_yaw and p = "pose_at 1.05 0", OF h1]
  note t1 = t [THEN conjunct2, THEN conjunct1, THEN spec, of "1.05", THEN mp, OF h2, THEN mp, OF h3]
  note t2 = t [THEN conjunct2, THEN conjunct2, THEN conjunct1, unfolded i]
  from h1 h2 h3 t1 t2 show ?thesis
    by (intro conjI)
qed



subsection \<open>A pose just past the second corner\<close>

text \<open>
  C7. On the square track, an accepted pose at \<open>(1.05, 0)\<close> with yaw \<open>0\<close>, in the
  arithmetic of the reals: the nearest waypoint is the one at index \<open>1\<close>, the bearing to
  it is \<open>atan2 (0, -0.05) = \<pi>\<close>, the folded difference is \<open>\<pi>\<close>, which exceeds
  \<open>\<pi> / 2\<close>, so the first index is \<open>2\<close>, and the window published starts with the
  waypoints \<open>2, 3, 0, 1\<close> and goes on around the track to 200 entries.
\<close>

theorem scenario_B:
  assumes "map (\<lambda>w. position (ps_pose (wp_pose w))) (waypoints s) =
             [\<lparr>pt_x = 0, pt_y = 0, pt_z = 0\<rparr>, \<lparr>pt_x = 1, pt_y = 0, pt_z = 0\<rparr>,
              \<lparr>pt_x = 1, pt_y = 1, pt_z = 0\<rparr>, \<lparr>pt_x = 0, pt_y = 1, pt_z = 0\<rparr>]"
    and "length (lane_waypoints (final_waypoints s)) = LOOKAHEAD_WPS"
    and "position (ps_pose p) = \<lparr>pt_x = 1.05, pt_y = 0, pt_z = 0\<rparr>"
    and "yaw_of (orientation (ps_pose p)) = 0"
    and "distance real_arith (position (ps_pose p)) (position (ps_pose (ego_pose s))) = Inr d"
    and "\<not> f_less real_arith d (MIN_UPDATE_DIST real_arith)"
  shows "(\<exists>c. find_closest real_arith (position (ps_pose p)) (waypoints s) = Inr (1, c)) \<and>
         f_atan2 real_arith (0 - 0) (1 - 1.05) = pi \<and>
         heading_to real_arith (position (ps_pose p))
           (position (ps_pose (wp_pose (waypoints s ! 1)))) = Inr pi \<and>
         normalise_yaw real_arith (yaw_of (orientation (ps_pose p))) = Inr 0 \<and>
         folded_angle real_arith 0 pi = pi \<and>
         f_less real_arith (f_div real_arith pi 2) pi \<and>
         select_first real_arith 1 (length (waypoints s)) pi = 2 \<and>
         fst (pose_cb real_arith yaw_of p s) = None \<and>
         (\<exists>msg. published (snd (pose_cb real_arith yaw_of p s)) = published s @ [msg] \<and>
            length (lane_waypoints msg) = 200 \<and>
            lane_waypoints msg ! 0 = waypoints s ! 2 \<and>
            lane_waypoints msg ! 1 = waypoints s ! 3 \<and>
            lane_waypoints msg ! 2 = waypoints s ! 0 \<and>
            lane_waypoints msg ! 3 = waypoints s ! 1 \<and>
            (\<forall>i < 200. lane_waypoints msg ! i = waypoints s ! ((2 + i) mod 4)))"
proof -
  let ?q = "drop (length (ego_pose_queue s) + 1 - 50) (ego_pose_queue s @ [p])"
  let ?s' = "s\<lparr>log := log s @ [LogEgoPose p d], ego_pose := p, ego_pose_queue := ?q\<rparr>"
  note f = scenario_first_id [where wps = "waypoints s" and p = p and yaw_of = yaw_of,
      OF assms(1,3,4)]
  have len: "length (waypoints s) = 4"
    using arg_cong [OF assms(1), of length] by simp
  have closest: "\<exists>c. find_closest real_arith (position (ps_pose p)) (waypoints s) = Inr (1, c)"
    using f(1) by blast
  have at: "f_atan2 real_arith (0 - 0) (1 - 1.05) = pi"
    by (simp add: real_arith_simps atan2_neg_x_axis)
  have half: "f_less real_arith (f_div real_arith pi 2) pi"
    using f(5) by (simp add: behind_def real_arith_simps)
  have acc: "pose_cb real_arith yaw_of p s = publish_waypoints real_arith yaw_of ?s'"
    using assms(5,6) by (rule pose_cb_accepts)
  have ne: "waypoints ?s' \<noteq> []" using len by auto
  have inv: "length (lane_waypoints (final_waypoints ?s')) = LOOKAHEAD_WPS"
    using assms(2) by simp
  have first: "first_id_of real_arith yaw_of (ego_pose ?s') (waypoints ?s') = Inr 2"
    using f(7) by simp
  from publish_waypoints_ok [where s = ?s' and fl = real_arith and yaw_of = yaw_of, OF ne inv first]
  obtain lines where ok: "publish_waypoints real_arith yaw_of ?s' =
      (None, ?s'\<lparr>final_waypoints := window_msg ?s' 2, log := log ?s' @ lines,
                 published := published ?s' @ [window_msg ?s' 2]\<rparr>)"
    by blast
  let ?msg = "window_msg ?s' 2"
  have msg: "lane_waypoints ?msg = window (waypoints s) 2 200"
    by (simp add: window_msg_def LOOKAHEAD_WPS_def)
  have nth: "\<forall>i < 200. lane_waypoints ?msg ! i = waypoints s ! ((2 + i) mod 4)"
    unfolding msg using window_nth [of _ 200 "waypoints s" 2] by (simp add: len)
  have n0: "lane_waypoints ?msg ! 0 = waypoints s ! 2"
    using nth [rule_format, of 0] by simp
  have n1: "lane_waypoints ?msg ! 1 = waypoints s ! 3"
    using nth [rule_format, of 1] by simp
  have n2: "lane_waypoints ?msg ! 2 = waypoints s ! 0"
    using nth [rule_format, of 2] by simp
  have n3: "lane_waypoints ?msg ! 3 = waypoints s ! 1"
    using nth [rule_format, of 3] by simp
  have pub1: "published (snd (pose_cb real_arith yaw_of p s)) = published s @ [?msg]"
    unfolding acc ok by simp
  have l200: "length (lane_waypoints ?msg) = 200"
    unfolding msg by (simp add: window_def)
  have ex: "\<exists>msg. published (snd (pose_cb real_arith yaw_of p s)) = published s @ [msg] \<and>
            length (lane_waypoints msg) = 200 \<and>
            lane_waypoints msg ! 0 = waypoints s ! 2 \<and>
            lane_waypoints msg ! 1 = waypoints s ! 3 \<and>
            lane_waypoints msg ! 2 = waypoints s ! 0 \<and>
            lane_waypoints msg ! 3 = waypoints s ! 1 \<and>
            (\<forall>i < 200. lane_waypoints msg ! i = waypoints s ! ((2 + i) mod 4))"
    by (intro exI [of _ ?msg] conjI pub1 l200 n0 n1 n2 n3 nth)
  have okk: "fst (pose_cb real_arith yaw_of p s) = None"
    unfolding acc ok by (rule fst_conv)
  from closest at f(2) f(3) f(4) half f(6) okk ex show ?thesis
    by (intro conjI)
qed

theorem scenario_B_witness:
  "map (\<lambda>w. position (ps_pose (wp_pose w))) (waypoints square_node) =
     [\<lparr>pt_x = 0, pt_y = 0, pt_z = 0\<rparr>, \<lparr>pt_x = 1, pt_y = 0, pt_z = 0\<rparr>,
      \<lparr>pt_x = 1, pt_y = 1, pt_z = 0\<rparr>, \<lparr>pt_x = 0, pt_y = 1, pt_z = 0\<rparr>] \<and>
   length (lane_waypoints (final_waypoints square_node)) = LOOKAHEAD_WPS \<and>
   position (ps_pose (pose_at 1.05 0)) = \<lparr>pt_x = 1.05, pt_y = 0, pt_z = 0\<rparr> \<and>
   euler_from_quaternion_yaw (orientation (ps_pose (pose_at 1.05 0))) = 0 \<and>
   distance real_arith (position (ps_pose (pose_at 1.05 0)))
     (position (ps_pose (ego_pose square_node))) = Inr 1.05 \<and>
   \<not> f_less real_arith 1.05 (MIN_UPDATE_DIST real_arith) \<and>
   (\<exists>c. find_closest real_arith (position (ps_pose (pose_at 1.05 0))) (waypoints square_node) =
          Inr (1, c)) \<and>
   fst (pose_cb real_arith euler_from_quaternion_yaw (pose_at 1.05 0) square_node) = None \<and>
   (\<exists>msg. published (snd (pose_cb real_arith euler_from_quaternion_yaw (pose_at 1.05 0) square_node)) =
            [msg] \<and>
      length (lane_waypoints msg) = 200 \<and>
      lane_waypoints msg ! 0 = waypoint_at 1 1 \<and>
      lane_waypoints msg ! 1 = waypoint_at 0 1 \<and>
      lane_waypoints msg ! 2 = waypoint_at 0 0 \<and>
      lane_waypoints msg ! 3 = waypoint_at 1 0)"
proof -
  have h1: "map (\<lambda>w. position (ps_pose (wp_pose w))) (waypoints square_node) =
     [\<lparr>pt_x = 0, pt_y = 0, pt_z = 0\<rparr>, \<lparr>pt_x = 1, pt_y = 0, pt_z = 0\<rparr>,
      \<lparr>pt_x = 1, pt_y = 1, pt_z = 0\<rparr>, \<lparr>pt_x = 0, pt_y = 1, pt_z = 0\<rparr>]"
    by (simp add: square_node_simps square_track_positions)
  have h2: "length (lane_waypoints (final_waypoints square_node)) = LOOKAHEAD_WPS"
    by (simp add: square_node_simps)
  have h3: "position (ps_pose (pose_at 1.05 0)) = \<lparr>pt_x = 1.05, pt_y = 0, pt_z = 0\<rparr>"
    by (simp add: pose_at_def)
  have h4: "euler_from_quaternion_yaw (orientation (ps_pose (pose_at 1.05 0))) = 0"
    by (simp add: pose_at_def euler_yaw_identity)
  have h5: "distance real_arith (position (ps_pose (pose_at 1.05 0)))
              (position (ps_pose (ego_pose square_node))) = Inr 1.05"
    by (rule distance_square_node) simp_all
  have h6: "\<not> f_less real_arith 1.05 (MIN_UPDATE_DIST real_arith)"
    by (simp add: MIN_UPDATE_DIST_def real_arith_simps)
  have tr: "waypoints square_node ! 2 = waypoint_at 1 1" "waypoints square_node ! 3 = waypoint_at 0 1"
    "waypoints square_node ! 0 = waypoint_at 0 0" "waypoints square_node ! 1 = waypoint_at 1 0"
    "published square_node = []"
    by (simp_all add: square_node_simps square_track_def)
  note sb = scenario_B [where s = square_node and p = "pose_at 1.05 0"
      and yaw_of = euler_from_quaternion_yaw and d = "1.05", OF h1 h2 h3 h4 h5 h6]
  from sb have c: "\<exists>c. find_closest real_arith (position (ps_pose (pose_at 1.05 0)))
                        (waypoints square_node) = Inr (1, c)"
    and ok: "fst (pose_cb real_arith euler_from_quaternion_yaw (pose_at 1.05 0) square_node) = None"
    by blast+
  from sb obtain msg where
    m: "published (snd (pose_cb real_arith euler_from_quaternion_yaw (pose_at 1.05 0) square_node)) =
          published square_node @ [msg]"
      "length (lane_waypoints msg) = 200"
      "lane_waypoints msg ! 0 = waypoints square_node ! 2"
      "lane_waypoints msg ! 1 = waypoints square_node ! 3"
      "lane_waypoints msg ! 2 = waypoints square_node ! 0"
      "lane_waypoints msg ! 3 = waypoints square_node ! 1"
    by blast
  have ex: "\<exists>msg. published (snd (pose_cb real_arith euler_from_quaternion_yaw (pose_at 1.05 0) square_node)) = [msg] \<and>
      length (lane_waypoints msg) = 200 \<and>
      lane_waypoints msg ! 0 = waypoint_at 1 1 \<and>
      lane_waypoints msg ! 1 = waypoint_at 0 1 \<and>
      lane_waypoints msg ! 2 = waypoint_at 0 0 \<and>
      lane_waypoints msg ! 3 = waypoint_at 1 0"
    using m unfolding tr by (intro exI [of _ msg]) simp
  from h1 h2 h3 h4 h5 h6 c ok ex show ?thesis
    by (intro conjI)
qed

subsection \<open>The traffic and obstacle callbacks\<close>

text \<open>
  C6. The value \<^verbatim>\<open>WP_UNDEFINED\<close> is stored without the index check, which would
  reject it, and the callback returns. Every other value below \<open>0\<close> or not below
  the length of the track fails the assertion of \<open>check_waypoint_index\<close>.
\<close>

theorem overlay_sentinel_and_range:
  "traffic_cb WP_UNDEFINED s = (None, s\<lparr>wp_traffic_light := WP_UNDEFINED\<rparr>) \<and>
   obstacle_cb WP_UNDEFINED s = (None, s\<lparr>wp_obstacle := WP_UNDEFINED\<rparr>) \<and>
   check_waypoint_index WP_UNDEFINED s = Some (AssertionError (InvalidWaypointIndex WP_UNDEFINED)) \<and>
   (v \<noteq> WP_UNDEFINED \<longrightarrow> (v < 0 \<or> int (length (waypoints s)) \<le> v) \<longrightarrow>
      fst (traffic_cb v s) = Some (AssertionError (InvalidWaypointIndex v)) \<and>
      fst (obstacle_cb v s) = Some (AssertionError (InvalidWaypointIndex v)))"
  by (auto simp: traffic_cb_def obstacle_cb_def check_waypoint_index_def WP_UNDEFINED_def Let_def)

theorem overlay_sentinel_and_range_witness:
  "(7::int) \<noteq> WP_UNDEFINED \<and> ((7::int) < 0 \<or> int (length (waypoints square_node)) \<le> 7) \<and>
   traffic_cb WP_UNDEFINED square_node = (None, square_node\<lparr>wp_traffic_light := WP_UNDEFINED\<rparr>) \<and>
   fst (traffic_cb 7 square_node) = Some (AssertionError (InvalidWaypointIndex 7)) \<and>
   fst (obstacle_cb 7 square_node) = Some (AssertionError (InvalidWaypointIndex 7))"
  using overlay_sentinel_and_range [of square_node 7]
  by (simp add: square_node_simps length_square_track WP_UNDEFINED_def)

text \<open>
  C8, as the code has it. The callback stores the received value before it checks it:
  when the check fails, the assertion is raised with the rejected value already in the
  field of the state, and nothing else changed.
\<close>

theorem overlay_invalid_index_stored:
  assumes "v \<noteq> WP_UNDEFINED" and "v < 0 \<or> int (length (waypoints s)) \<le> v"
  shows "traffic_cb v s =
           (Some (AssertionError (InvalidWaypointIndex v)), s\<lparr>wp_traffic_light := v\<rparr>) \<and>
         obstacle_cb v s =
           (Some (AssertionError (InvalidWaypointIndex v)), s\<lparr>wp_obstacle := v\<rparr>)"
  using assms
  by (auto simp: traffic_cb_def obstacle_cb_def check_waypoint_index_def Let_def)

theorem overlay_invalid_index_stored_witness:
  "(- 2::int) \<noteq> WP_UNDEFINED \<and> ((- 2::int) < 0 \<or> int (length (waypoints square_node)) \<le> - 2) \<and>
   traffic_cb (- 2) square_node =
     (Some (AssertionError (InvalidWaypointIndex (- 2))), square_node\<lparr>wp_traffic_light := - 2\<rparr>) \<and>
   obstacle_cb (- 2) square_node =
     (Some (AssertionError (InvalidWaypointIndex (- 2))), square_node\<lparr>wp_obstacle := - 2\<rparr>)"
proof -
  have h1: "(- 2::int) \<noteq> WP_UNDEFINED" by (simp add: WP_UNDEFINED_def)
  have h2: "(- 2::int) < 0 \<or> int (length (waypoints square_node)) \<le> - 2" by simp
  from overlay_invalid_index_stored [OF h1 h2] h1 h2 show ?thesis by simp
qed

text \<open>
  The stored index is therefore not the one from before the update: on the square track
  the value \<open>4\<close> fails the check and replaces the stored \<open>-1\<close>.
\<close>

theorem overlay_invalid_index_counterexample:
  "fst (traffic_cb 4 square_node) = Some (AssertionError (InvalidWaypointIndex 4)) \<and>
   wp_traffic_light (snd (traffic_cb 4 square_node)) \<noteq> wp_traffic_light square_node \<and>
   fst (obstacle_cb 4 square_node) = Some (AssertionError (InvalidWaypointIndex 4)) \<and>
   wp_obstacle (snd (obstacle_cb 4 square_node)) \<noteq> wp_obstacle square_node"
  by (simp add: traffic_cb_def obstacle_cb_def check_waypoint_index_def WP_UNDEFINED_def Let_def
        square_node_simps length_square_track)

text \<open>
  C9. A valid index on the square track: the check passes, and the log line that follows
  reads the attribute \<^verbatim>\<open>waypoint\<close>, which the node does not have, so the callback
  raises \<^verbatim>\<open>AttributeError\<close> with the index stored and nothing logged.
\<close>

theorem overlay_valid_index_raises:
  "traffic_cb 2 square_node =
     (Some (AttributeError ''waypoint''), square_node\<lparr>wp_traffic_light := 2\<rparr>) \<and>
   obstacle_cb 2 square_node =
     (Some (AttributeError ''waypoint''), square_node\<lparr>wp_obstacle := 2\<rparr>)"
  by (simp add: traffic_cb_def obstacle_cb_def check_waypoint_index_def WP_UNDEFINED_def Let_def
        VERBOSE_def self_waypoint_def square_node_simps length_square_track)

end
